theory Spec2Isabelle
  imports Main
begin

section \<open>Attribute sigils of media embeds (ExtractAttributesFromAlt)\<close>

text \<open>
  The alt text of a media embed may end with sigil characters. The source reads the alt
  text rune by rune, from the last rune to the first. The sigils and the separating space
  are ASCII, so a \<^typ>\<open>string\<close> whose characters stand for the runes of the alt text is
  a faithful reading of the loop.
\<close>

record MediaAttributes =
  Loop :: bool
  Autoplay :: bool
  Muted :: bool
  Playsinline :: bool
  Controls :: bool

definition RuneLoop :: char where
  "RuneLoop = CHR ''~''"

definition RuneAutoplay :: char where
  "RuneAutoplay = CHR ''>''"

definition RuneHideControls :: char where
  "RuneHideControls = CHR ''=''"

definition isMediaEmbedAttribute :: "char \<Rightarrow> bool" where
  "isMediaEmbedAttribute c \<longleftrightarrow> c = RuneAutoplay \<or> c = RuneLoop \<or> c = RuneHideControls"

text \<open>The attributes before any sigil is read: only \<open>Controls\<close> is on.\<close>

definition default_attributes :: MediaAttributes where
  "default_attributes =
     \<lparr>Loop = False, Autoplay = False, Muted = False, Playsinline = False, Controls = True\<rparr>"

text \<open>The effect of one rune read inside the attributes zone.\<close>

definition apply_sigil :: "char \<Rightarrow> MediaAttributes \<Rightarrow> MediaAttributes" where
  "apply_sigil c attrs =
     (if c = RuneAutoplay then attrs\<lparr>Autoplay := True, Muted := True\<rparr>
      else if c = RuneLoop then attrs\<lparr>Loop := True\<rparr>
      else if c = RuneHideControls then attrs\<lparr>Controls := False, Playsinline := True\<rparr>
      else attrs)"

text \<open>
  The backward loop. The first argument holds the runes still to be read, the last rune
  of the alt text first; the state is \<open>(inAttributesZone, altText, attrs)\<close>.
\<close>

fun extract_loop ::
  "string \<Rightarrow> bool \<times> string \<times> MediaAttributes \<Rightarrow> bool \<times> string \<times> MediaAttributes" where
  "extract_loop [] st = st"
| "extract_loop (c # cs) (inAttributesZone, altText, attrs) =
     (if c = CHR '' '' \<and> inAttributesZone then extract_loop cs (False, altText, attrs)
      else if inAttributesZone then extract_loop cs (True, altText, apply_sigil c attrs)
      else extract_loop cs (False, c # altText, attrs))"

definition ExtractAttributesFromAlt :: "string \<Rightarrow> string \<times> MediaAttributes" where
  "ExtractAttributesFromAlt alt =
     (if alt = [] \<or> \<not> isMediaEmbedAttribute (last alt) then (alt, default_attributes)
      else (case extract_loop (rev alt) (True, [], default_attributes) of
              (_, altText, attrs) \<Rightarrow> (altText, attrs)))"

text \<open>
  The runes that the loop reads inside the attributes zone: none when the last rune is not
  a sigil, otherwise everything after the last space of the alt text.
\<close>

definition consumed_sigils :: "string \<Rightarrow> string" where
  "consumed_sigils alt =
     (if alt = [] \<or> \<not> isMediaEmbedAttribute (last alt) then []
      else takeWhile (\<lambda>c. c \<noteq> CHR '' '') (rev alt))"

text \<open>No attribute that is on is switched off, and \<open>Controls\<close> is never switched on.\<close>

definition never_cleared :: "MediaAttributes \<Rightarrow> MediaAttributes \<Rightarrow> bool" where
  "never_cleared a a' \<longleftrightarrow>
     (Loop a \<longrightarrow> Loop a') \<and> (Autoplay a \<longrightarrow> Autoplay a') \<and> (Muted a \<longrightarrow> Muted a') \<and>
     (Playsinline a \<longrightarrow> Playsinline a') \<and> (Controls a' \<longrightarrow> Controls a)"

section \<open>Text helpers of the Go standard library\<close>

text \<open>
  \<open>strings.Split(s, "\n")\<close>: the pieces of \<open>s\<close> between the newlines; the empty text
  gives one empty line. \<open>Split_from piece s\<close> has already read \<open>piece\<close> of the
  current line.
\<close>

fun Split_from :: "string \<Rightarrow> string \<Rightarrow> string list" where
  "Split_from piece [] = [piece]"
| "Split_from piece (c # cs) =
     (if c = CHR ''\<newline>'' then piece # Split_from [] cs else Split_from (piece @ [c]) cs)"

definition Split :: "string \<Rightarrow> string list" where
  "Split s = Split_from [] s"

text \<open>What the loops build with \<open>+= line + "\n"\<close>, iterated over a list of lines.\<close>

definition unlines :: "string list \<Rightarrow> string" where
  "unlines ls = concat (map (\<lambda>l. l @ ''\<newline>'') ls)"

text \<open>The class \<open>\s\<close> of Go regular expressions: tab, newline, form feed, carriage return, space.\<close>

definition is_space :: "char \<Rightarrow> bool" where
  "is_space c \<longleftrightarrow> c = CHR 0x09 \<or> c = CHR 0x0A \<or> c = CHR 0x0C \<or> c = CHR 0x0D \<or> c = CHR '' ''"

section \<open>Language markers (SplitOnLanguageMarkers)\<close>

text \<open>
  The tail \<open>\s+(.+)$\<close> of the two patterns of the parser, compiled without flags:
  \<open>$\<close> is the end of the text and \<open>.\<close> is any character but a newline. The
  result is the submatch of \<open>(.+)\<close>, or \<open>None\<close> when the tail does not match.
  The greedy \<open>\s+\<close> takes all the white space, except that it leaves one character
  to \<open>(.+)\<close> when nothing else follows.
\<close>

definition spaces_then_rest :: "string \<Rightarrow> string option" where
  "spaces_then_rest s =
     (let ws = takeWhile is_space s; r = dropWhile is_space s in
      if ws = [] then None
      else if r \<noteq> [] then (if CHR ''\<newline>'' \<in> set r then None else Some r)
      else if 2 \<le> length ws \<and> last ws \<noteq> CHR ''\<newline>'' then Some [last ws]
      else None)"

text \<open>
  \<open>PatternLanguageMarker\<close> is \<open>^::\s+(.+)$\<close>. \<open>FindLanguageMarker s\<close> is the
  first submatch of the pattern on \<open>s\<close> (\<open>FindStringSubmatch(s)[1]\<close>), or
  \<open>None\<close> when \<open>MatchString(s)\<close> is false.
\<close>

definition FindLanguageMarker :: "string \<Rightarrow> string option" where
  "FindLanguageMarker s =
     (case s of
        c1 # c2 # rest \<Rightarrow> if c1 = CHR '':'' \<and> c2 = CHR '':'' then spaces_then_rest rest else None
      | _ \<Rightarrow> None)"

text \<open>
  The loop over the lines. The state is \<open>(currentLanguage, before, markdownRawPerLanguage)\<close>.
  A marker line sets the current language and empties its bucket; the line is then appended,
  to \<open>before\<close> while no language is current and to the current language's bucket
  otherwise. Reading a missing key of a Go map gives the empty string.
\<close>

fun split_loop ::
  "string list \<Rightarrow> string \<times> string \<times> (string \<rightharpoonup> string) \<Rightarrow> string \<times> string \<times> (string \<rightharpoonup> string)" where
  "split_loop [] st = st"
| "split_loop (line # lines) (currentLanguage, before, perLanguage) =
     (case (case FindLanguageMarker line of
              Some l \<Rightarrow> (l, perLanguage(l \<mapsto> []))
            | None \<Rightarrow> (currentLanguage, perLanguage)) of
        (cur, m) \<Rightarrow>
          if cur = [] then split_loop lines (cur, before @ line @ ''\<newline>'', m)
          else split_loop lines
                 (cur, before, m(cur \<mapsto> (case m cur of None \<Rightarrow> [] | Some b \<Rightarrow> b) @ line @ ''\<newline>'')))"

definition SplitOnLanguageMarkers :: "string \<Rightarrow> string \<times> (string \<rightharpoonup> string)" where
  "SplitOnLanguageMarkers markdownRaw =
     (case split_loop (Split markdownRaw) ([], [], Map.empty) of
        (_, before, perLanguage) \<Rightarrow> (before, perLanguage))"

section \<open>Header and body (ParseYAMLHeader)\<close>

text \<open>
  The inner loop \<open>for strings.HasPrefix(line, "\t")\<close>: while the line starts with a tab,
  that tab is replaced by four spaces.
\<close>

function expand_tabs :: "string \<Rightarrow> string" where
  "expand_tabs [] = []"
| "expand_tabs (c # cs) = (if c = CHR 0x09 then expand_tabs (''    '' @ cs) else c # cs)"
  by pat_completeness auto
termination
  by (relation "measure (\<lambda>line. if line \<noteq> [] \<and> hd line = CHR 0x09 then 1 else 0)") auto

text \<open>\<open>strings.Trim(line, "-")\<close> and \<open>strings.Count(line, "-")\<close>.\<close>

definition Trim_dashes :: "string \<Rightarrow> string" where
  "Trim_dashes line = rev (dropWhile (\<lambda>c. c = CHR ''-'') (rev (dropWhile (\<lambda>c. c = CHR ''-'') line)))"

definition Count_dashes :: "string \<Rightarrow> nat" where
  "Count_dashes line = length (filter (\<lambda>c. c = CHR ''-'') line)"

definition is_header_separator :: "string \<Rightarrow> bool" where
  "is_header_separator line \<longleftrightarrow> Trim_dashes line = [] \<and> 3 \<le> Count_dashes line"

text \<open>The loop over the lines; the state is \<open>(inYAMLHeader, rawYAMLPart, markdownPart)\<close>.\<close>

fun header_loop :: "string list \<Rightarrow> bool \<times> string \<times> string \<Rightarrow> bool \<times> string \<times> string" where
  "header_loop [] st = st"
| "header_loop (l # lines) (inYAMLHeader, rawYAMLPart, markdownPart) =
     (let line = expand_tabs l in
      if is_header_separator line then header_loop lines (\<not> inYAMLHeader, rawYAMLPart, markdownPart)
      else if inYAMLHeader then header_loop lines (inYAMLHeader, rawYAMLPart @ line @ ''\<newline>'', markdownPart)
      else header_loop lines (inYAMLHeader, rawYAMLPart, markdownPart @ line @ ''\<newline>''))"

text \<open>
  Decoding the YAML text into the metadata (\<open>yaml.Unmarshal\<close>, the renaming of keys with
  spaces, \<open>mapstructure.Decode\<close>) is done by libraries: it is the parameter \<open>decode\<close>.
\<close>

definition ParseYAMLHeader :: "(string \<Rightarrow> 'm) \<Rightarrow> string \<Rightarrow> 'm \<times> string" where
  "ParseYAMLHeader decode descriptionRaw =
     (case header_loop (Split descriptionRaw) (False, [], []) of
        (_, rawYAMLPart, markdownPart) \<Rightarrow> (decode rawYAMLPart, markdownPart))"

text \<open>A line is a marker line when the pattern matches it.\<close>

definition is_marker :: "string \<Rightarrow> bool" where
  "is_marker line \<longleftrightarrow> FindLanguageMarker line \<noteq> None"

text \<open>
  The header and body lines as the specification describes them, for comparison with the
  loop: a separator line toggles the header and is dropped, every other line goes to the
  header lines or to the body lines.
\<close>

fun header_body_lines :: "string list \<Rightarrow> bool \<Rightarrow> string list \<times> string list" where
  "header_body_lines [] inHeader = ([], [])"
| "header_body_lines (l # ls) inHeader =
     (if is_header_separator l then header_body_lines ls (\<not> inHeader)
      else (case header_body_lines ls inHeader of
              (header, body) \<Rightarrow> if inHeader then (l # header, body) else (header, l # body)))"


section \<open>Media analysis (AnalyzeMediaFile, AnalyzeAllMediae)\<close>

type_synonym error = string

text \<open>What the description file says about one media embed: no file is read to build it.\<close>

record MediaEmbedDeclaration =
  Anchor :: string
  ID :: string
  Alt :: string
  Title :: string
  Source :: string
  Attributes :: MediaAttributes

text \<open>
  An analysed media. \<open>ImageDimensions\<close> holds two integers and a 32-bit float; the
  functions below only copy it, so it is the type parameter \<open>'d\<close>.
\<close>

record 'd Media =
  Media_ID :: string
  Media_Alt :: string
  Media_Title :: string
  Media_Source :: string
  Media_Path :: string
  ContentType :: string
  Size :: nat
  Dimensions :: 'd
  Duration :: nat
  Online :: bool
  Media_Attributes :: MediaAttributes
  HasSound :: bool

text \<open>
  The file system and the libraries, as the analysis sees them: opening a file and reading
  its \<open>Stat\<close> gives an error or \<open>(IsDir, Size)\<close>; \<open>DetectFile\<close> is the MIME sniffer;
  the four analysers read dimensions and durations; \<open>no_dimensions\<close> is the zero value
  \<open>ImageDimensions{}\<close>. The path functions are those of the packages \<open>path\<close> and
  \<open>path/filepath\<close>; \<open>slugify\<close> is \<open>slugify.Marshal(_, true)\<close>.
\<close>

record 'd libraries =
  open_stat :: "string \<Rightarrow> error + bool \<times> nat"
  DetectFile :: "string \<Rightarrow> error + string"
  GetSVGDimensions :: "string \<Rightarrow> error + 'd"
  GetImageDimensions :: "string \<Rightarrow> error + 'd"
  AnalyzeVideo :: "string \<Rightarrow> error + 'd \<times> nat \<times> bool"
  AnalyzeAudio :: "string \<Rightarrow> nat"
  no_dimensions :: 'd
  Join :: "string \<Rightarrow> string \<Rightarrow> string"
  Clean :: "string \<Rightarrow> string"
  IsAbs :: "string \<Rightarrow> bool"
  Abs :: "string \<Rightarrow> string"
  slugify :: "string \<Rightarrow> string"
  filepathBaseNoExt :: "string \<Rightarrow> string"
  isValidURL :: "string \<Rightarrow> bool"

text \<open>The fields of the run context that the media analysis reads.\<close>

record MediaContext =
  Scattered :: bool
  ScatteredModeFolder :: string

definition HasPrefix :: "string \<Rightarrow> string \<Rightarrow> bool" where
  "HasPrefix s p \<longleftrightarrow> take (length p) s = p"

definition RelativePathToMedia ::
  "'d libraries \<Rightarrow> MediaContext \<Rightarrow> MediaEmbedDeclaration \<Rightarrow> string" where
  "RelativePathToMedia lib ctx embedDeclaration =
     (if Scattered ctx then Clean lib (Join lib (ScatteredModeFolder ctx) (Source embedDeclaration))
      else Clean lib (Source embedDeclaration))"

definition AnalyzeMediaFile ::
  "'d libraries \<Rightarrow> MediaContext \<Rightarrow> string \<Rightarrow> MediaEmbedDeclaration \<Rightarrow> error + 'd Media" where
  "AnalyzeMediaFile lib ctx filename embedDeclaration =
     (case open_stat lib filename of
        Inl err \<Rightarrow> Inl err
      | Inr (isDir, fileSize) \<Rightarrow>
          (let contentType =
                 (if isDir then ''directory''
                  else (case DetectFile lib filename of
                          Inl _ \<Rightarrow> ''application/octet-stream''
                        | Inr mimeType \<Rightarrow> mimeType));
               isAudio = HasPrefix contentType ''audio/'';
               isVideo = HasPrefix contentType ''video/'';
               isImage = HasPrefix contentType ''image/''
           in (case (if isImage then
                       (if contentType = ''image/svg'' \<or> contentType = ''image/svg+xml''
                        then GetSVGDimensions lib filename else GetImageDimensions lib filename)
                     else Inr (no_dimensions lib)) of
                 Inl err \<Rightarrow> Inl err
               | Inr imageDimensions \<Rightarrow>
                   (case (if isVideo then AnalyzeVideo lib filename
                          else Inr (imageDimensions, 0, False)) of
                      Inl err \<Rightarrow> Inl err
                    | Inr (dimensions, videoDuration, videoSound) \<Rightarrow>
                        Inr \<lparr>Media_ID = slugify lib (filepathBaseNoExt lib filename),
                             Media_Alt = Alt embedDeclaration,
                             Media_Title = Title embedDeclaration,
                             Media_Source = Source embedDeclaration,
                             Media_Path = RelativePathToMedia lib ctx embedDeclaration,
                             ContentType = contentType,
                             Size = fileSize,
                             Dimensions = dimensions,
                             Duration = (if isAudio then AnalyzeAudio lib filename else videoDuration),
                             Online = False,
                             Media_Attributes = Attributes embedDeclaration,
                             HasSound = (if isAudio then True else videoSound)\<rparr>))))"

text \<open>The absolute file name of a declaration's source, from the directory of the work.\<close>

definition media_filename :: "'d libraries \<Rightarrow> string \<Rightarrow> MediaEmbedDeclaration \<Rightarrow> string" where
  "media_filename lib currentDirectory media =
     (if \<not> IsAbs lib (Source media) then Abs lib (Join lib currentDirectory (Source media))
      else Source media)"

text \<open>The media of a source that is a URL: nothing is analysed.\<close>

definition online_media :: "'d libraries \<Rightarrow> MediaEmbedDeclaration \<Rightarrow> 'd Media" where
  "online_media lib media =
     \<lparr>Media_ID = [], Media_Alt = Alt media, Media_Title = Title media, Media_Source = Source media,
      Media_Path = [], ContentType = [], Size = 0, Dimensions = no_dimensions lib, Duration = 0,
      Online = True, Media_Attributes = Attributes media, HasSound = False\<rparr>"

text \<open>
  The body of the inner loop, for one declaration. The state is
  \<open>(analyzedMediaeBySource, analysed)\<close>: the media already analysed, by file name, and
  the file names handed to \<open>AnalyzeMediaFile\<close> so far, in order. The result is the media
  appended to the language's list and the new state, or the error that ends the run.
\<close>

definition analyze_one ::
  "'d libraries \<Rightarrow> MediaContext \<Rightarrow> string \<Rightarrow> MediaEmbedDeclaration \<Rightarrow>
   (string \<rightharpoonup> 'd Media) \<times> string list \<Rightarrow> error + 'd Media \<times> (string \<rightharpoonup> 'd Media) \<times> string list" where
  "analyze_one lib ctx currentDirectory media st =
     (case st of (bySource, analysed) \<Rightarrow>
        if isValidURL lib (Source media) then Inr (online_media lib media, bySource, analysed)
        else
          (let filename = media_filename lib currentDirectory media in
           case bySource filename of
             Some alreadyAnalyzedMedia \<Rightarrow>
               Inr (alreadyAnalyzedMedia
                      \<lparr>Media_Alt := Alt media, Media_Attributes := Attributes media,
                       Media_Title := Title media\<rparr>,
                    bySource, analysed)
           | None \<Rightarrow>
               (case AnalyzeMediaFile lib ctx filename media of
                  Inl err \<Rightarrow> Inl err
                | Inr analyzedMedia \<Rightarrow>
                    Inr (analyzedMedia, bySource(filename \<mapsto> analyzedMedia), analysed @ [filename]))))"

text \<open>
  The inner loop over the declarations of one language. \<open>analyzedMediae\<close> maps each
  language to its list of media; appending to a missing key starts from the empty list.
\<close>

fun mediae_loop ::
  "'d libraries \<Rightarrow> MediaContext \<Rightarrow> string \<Rightarrow> string \<Rightarrow> MediaEmbedDeclaration list \<Rightarrow>
   (string \<rightharpoonup> 'd Media list) \<times> (string \<rightharpoonup> 'd Media) \<times> string list \<Rightarrow>
   error + (string \<rightharpoonup> 'd Media list) \<times> (string \<rightharpoonup> 'd Media) \<times> string list" where
  "mediae_loop lib ctx currentDirectory language [] st = Inr st"
| "mediae_loop lib ctx currentDirectory language (media # mediae) (analyzedMediae, bySource, analysed) =
     (case analyze_one lib ctx currentDirectory media (bySource, analysed) of
        Inl err \<Rightarrow> Inl err
      | Inr (analyzedMedia, bySource', analysed') \<Rightarrow>
          mediae_loop lib ctx currentDirectory language mediae
            (analyzedMediae(language \<mapsto>
               (case analyzedMediae language of None \<Rightarrow> [] | Some ms \<Rightarrow> ms) @ [analyzedMedia]),
             bySource', analysed'))"

text \<open>
  The outer loop over the languages. A Go map is iterated in some order: the declarations
  come as the list of \<open>(language, declarations)\<close> in the order of the iteration.
\<close>

fun languages_loop ::
  "'d libraries \<Rightarrow> MediaContext \<Rightarrow> string \<Rightarrow> (string \<times> MediaEmbedDeclaration list) list \<Rightarrow>
   (string \<rightharpoonup> 'd Media list) \<times> (string \<rightharpoonup> 'd Media) \<times> string list \<Rightarrow>
   error + (string \<rightharpoonup> 'd Media list) \<times> (string \<rightharpoonup> 'd Media) \<times> string list" where
  "languages_loop lib ctx currentDirectory [] st = Inr st"
| "languages_loop lib ctx currentDirectory ((language, mediae) # rest) (analyzedMediae, bySource, analysed) =
     (case mediae_loop lib ctx currentDirectory language mediae
             (analyzedMediae(language \<mapsto> []), bySource, analysed) of
        Inl err \<Rightarrow> Inl err
      | Inr st \<Rightarrow> languages_loop lib ctx currentDirectory rest st)"

text \<open>The directory the sources are resolved from.\<close>

definition media_directory :: "'d libraries \<Rightarrow> MediaContext \<Rightarrow> string \<Rightarrow> string" where
  "media_directory lib ctx currentDirectory =
     (if Scattered ctx then Join lib currentDirectory (ScatteredModeFolder ctx) else currentDirectory)"

text \<open>
  \<open>AnalyzeAllMediae\<close> with its effects: the map it returns and the file names it handed
  to \<open>AnalyzeMediaFile\<close>, or the error of the first analysis that failed.
\<close>

definition AnalyzeAllMediae_run ::
  "'d libraries \<Rightarrow> MediaContext \<Rightarrow> (string \<times> MediaEmbedDeclaration list) list \<Rightarrow> string \<Rightarrow>
   error + (string \<rightharpoonup> 'd Media list) \<times> string list" where
  "AnalyzeAllMediae_run lib ctx embedDeclarations currentDirectory =
     (case languages_loop lib ctx (media_directory lib ctx currentDirectory) embedDeclarations
             (Map.empty, Map.empty, []) of
        Inl err \<Rightarrow> Inl err
      | Inr (analyzedMediae, _, analysed) \<Rightarrow> Inr (analyzedMediae, analysed))"

definition AnalyzeAllMediae ::
  "'d libraries \<Rightarrow> MediaContext \<Rightarrow> (string \<times> MediaEmbedDeclaration list) list \<Rightarrow> string \<Rightarrow>
   error + (string \<rightharpoonup> 'd Media list)" where
  "AnalyzeAllMediae lib ctx embedDeclarations currentDirectory =
     (case AnalyzeAllMediae_run lib ctx embedDeclarations currentDirectory of
        Inl err \<Rightarrow> Inl err
      | Inr (analyzedMediae, _) \<Rightarrow> Inr analyzedMediae)"

text \<open>
  The same run over one list of declarations, for the proofs: the media produced, in
  order, and the final state.
\<close>

fun analyze_list ::
  "'d libraries \<Rightarrow> MediaContext \<Rightarrow> string \<Rightarrow> MediaEmbedDeclaration list \<Rightarrow>
   (string \<rightharpoonup> 'd Media) \<times> string list \<Rightarrow>
   error + 'd Media list \<times> (string \<rightharpoonup> 'd Media) \<times> string list" where
  "analyze_list lib ctx dir [] st = Inr ([], st)"
| "analyze_list lib ctx dir (media # mediae) st =
     (case analyze_one lib ctx dir media st of
        Inl err \<Rightarrow> Inl err
      | Inr (m, st') \<Rightarrow>
          (case analyze_list lib ctx dir mediae st' of
             Inl err \<Rightarrow> Inl err
           | Inr (ms, st'') \<Rightarrow> Inr (m # ms, st'')))"

text \<open>
  A small work for the examples: the file name of a source is the directory, a slash and
  the source; every file is a PNG image of 10 bytes; sources that start with \<open>h\<close> are
  URLs.
\<close>

definition example_libraries :: "(int \<times> int) libraries" where
  "example_libraries =
     \<lparr>open_stat = (\<lambda>filename. Inr (False, 10)),
      DetectFile = (\<lambda>filename. Inr ''image/png''),
      GetSVGDimensions = (\<lambda>filename. Inl ''not an SVG''),
      GetImageDimensions = (\<lambda>filename. Inr (4, 3)),
      AnalyzeVideo = (\<lambda>filename. Inl ''not a video''),
      AnalyzeAudio = (\<lambda>filename. 0),
      no_dimensions = (0, 0),
      Join = (\<lambda>a b. a @ ''/'' @ b),
      Clean = (\<lambda>p. p),
      IsAbs = (\<lambda>p. False),
      Abs = (\<lambda>p. p),
      slugify = (\<lambda>s. s),
      filepathBaseNoExt = (\<lambda>p. p),
      isValidURL = (\<lambda>s. take 1 s = ''h'')\<rparr>"

definition example_declaration :: "string \<Rightarrow> string \<Rightarrow> MediaEmbedDeclaration" where
  "example_declaration alt source =
     \<lparr>Anchor = [], ID = [], Alt = alt, Title = [], Source = source,
      Attributes = default_attributes\<rparr>"


section \<open>One language of a description (ParseSingleLanguageDescription)\<close>

text \<open>
  A node of the HTML tree, as the \<open>soup\<close> library shows it: whether it is an element,
  its \<open>NodeValue\<close> (the tag of an element, the text of a text node), its attributes,
  its children, its rendering \<open>HTML()\<close> and its \<open>FullText()\<close>.
\<close>

datatype Root =
  Root (Element: bool) (NodeValue: string) (Attrs: "(string \<times> string) list")
       (Children: "Root list") (HTML: string) (FullText: string)

text \<open>\<open>node.Attrs()[key]\<close>: a missing key of a Go map reads as the empty string.\<close>

definition attr :: "Root \<Rightarrow> string \<Rightarrow> string" where
  "attr node key = (case map_of (Attrs node) key of None \<Rightarrow> [] | Some v \<Rightarrow> v)"

text \<open>\<open>FindAll(tag)\<close>: the element descendants with that tag, in document order.\<close>

fun FindAll :: "string \<Rightarrow> Root \<Rightarrow> Root list" where
  "FindAll tag (Root e v a cs h t) =
     concat (map (\<lambda>c. (if Element c \<and> NodeValue c = tag then [c] else []) @ FindAll tag c) cs)"

text \<open>\<open>Find(tag)\<close>: the first of them; \<open>None\<close> stands for a result with \<open>Error\<close> set.\<close>

definition Find :: "string \<Rightarrow> Root \<Rightarrow> Root option" where
  "Find tag node = (case FindAll tag node of [] \<Rightarrow> None | x # _ \<Rightarrow> Some x)"

text \<open>\<open>strings.Contains\<close>, \<open>strings.HasSuffix\<close> and \<open>strings.TrimPrefix\<close>.\<close>

definition Contains :: "string \<Rightarrow> string \<Rightarrow> bool" where
  "Contains s substr \<longleftrightarrow> list_ex (\<lambda>i. take (length substr) (drop i s) = substr) [0..<Suc (length s)]"

definition HasSuffix :: "string \<Rightarrow> string \<Rightarrow> bool" where
  "HasSuffix s suffix \<longleftrightarrow> length suffix \<le> length s \<and> drop (length s - length suffix) s = suffix"

definition TrimPrefix :: "string \<Rightarrow> string \<Rightarrow> string" where
  "TrimPrefix s p = (if HasPrefix s p then drop (length p) s else s)"

definition TrimSuffix :: "string \<Rightarrow> string \<Rightarrow> string" where
  "TrimSuffix s suffix = (if HasSuffix s suffix then take (length s - length suffix) s else s)"

text \<open>
  \<open>strings.TrimSpace\<close>, on the white space of ASCII (tab, newline, vertical tab, form
  feed, carriage return, space).
\<close>

definition is_unicode_space :: "char \<Rightarrow> bool" where
  "is_unicode_space c \<longleftrightarrow> is_space c \<or> c = CHR 0x0B"

definition TrimSpace :: "string \<Rightarrow> string" where
  "TrimSpace s = rev (dropWhile is_unicode_space (rev (dropWhile is_unicode_space s)))"

text \<open>
  \<open>PatternAbbreviationDefinition\<close> is \<open>^\s*\*\[([^\]]+)\]:\s+(.+)$\<close>.
  \<open>FindAbbreviationDefinition s\<close> is the pair of its submatches on \<open>s\<close>
  (\<open>regexpGroups\<close>, entries 1 and 2), or \<open>None\<close> when \<open>regexpMatches\<close> is false.
\<close>

definition FindAbbreviationDefinition :: "string \<Rightarrow> (string \<times> string) option" where
  "FindAbbreviationDefinition s =
     (case dropWhile is_space s of
        c1 # c2 # rest \<Rightarrow>
          if c1 = CHR ''*'' \<and> c2 = CHR ''['' then
            (let name = takeWhile (\<lambda>c. c \<noteq> CHR '']'') rest in
             if name = [] then None
             else (case dropWhile (\<lambda>c. c \<noteq> CHR '']'') rest of
                     d1 # d2 # tail \<Rightarrow>
                       if d2 = CHR '':'' then
                         (case spaces_then_rest tail of
                            None \<Rightarrow> None
                          | Some definition \<Rightarrow> Some (name, definition))
                       else None
                   | _ \<Rightarrow> None))
          else None
      | _ \<Rightarrow> None)"

record Paragraph =
  Paragraph_ID :: string
  Index :: int
  Paragraph_Anchor :: string
  Content :: string

record Link =
  Link_ID :: string
  Link_Anchor :: string
  Text :: string
  Link_Title :: string
  URL :: string

text \<open>
  The libraries of the parser: the regular-expression rewriting of the alternative embed
  syntax, the markdown renderer, the HTML parser, the generator of identifiers (its
  \<open>n\<close>-th call), \<open>slugify.Marshal\<close> with its optional flag, and
  \<open>regexp.ReplaceAllString\<close> (pattern, text, replacement).
\<close>

record markup =
  HandleAltMediaEmbedSyntax :: "string \<Rightarrow> string"
  MarkdownToHTML :: "string \<Rightarrow> string"
  HTMLParse :: "string \<Rightarrow> Root"
  idGenerator :: "nat \<Rightarrow> string"
  Marshal :: "string \<Rightarrow> bool \<Rightarrow> string"
  ReplaceAllString :: "string \<Rightarrow> string \<Rightarrow> string \<Rightarrow> string"

definition innerHTML :: "Root \<Rightarrow> string" where
  "innerHTML element =
     (let inner = concat (map HTML (Children element)) in
      if inner = [] then HTML element else inner)"

text \<open>
  The loops \<open>for strings.HasPrefix(...)\<close> and \<open>for strings.HasSuffix(...)\<close>. The
  strings they remove are the three constants below, none of them empty.
\<close>

function trim_all_prefix :: "string \<Rightarrow> string \<Rightarrow> string" where
  "trim_all_prefix toRemove s =
     (if toRemove \<noteq> [] \<and> HasPrefix s toRemove then trim_all_prefix toRemove (TrimPrefix s toRemove)
      else s)"
  by pat_completeness auto
termination
  by (relation "measure (\<lambda>(toRemove, s). length s)")
    (auto simp: TrimPrefix_def HasPrefix_def intro!: diff_less)

function trim_all_suffix :: "string \<Rightarrow> string \<Rightarrow> string" where
  "trim_all_suffix toRemove s =
     (if toRemove \<noteq> [] \<and> HasSuffix s toRemove then trim_all_suffix toRemove (TrimSuffix s toRemove)
      else s)"
  by pat_completeness auto
termination
  by (relation "measure (\<lambda>(toRemove, s). length s)")
    (auto simp: TrimSuffix_def HasSuffix_def intro!: diff_less)

declare trim_all_prefix.simps [simp del]
declare trim_all_suffix.simps [simp del]

definition trimHTMLWhitespace :: "string \<Rightarrow> string" where
  "trimHTMLWhitespace rawHTML =
     fold (\<lambda>toRemove raw. trim_all_suffix toRemove (trim_all_prefix toRemove raw))
       [''<br>'', ''<br />'', ''<br/>''] (TrimSpace rawHTML)"

text \<open>
  \<open>ReplaceAbbreviations\<close>. The abbreviations come in the order in which the Go map is
  iterated. Every round rewrites the content of the paragraph as it was given, and the
  paragraph returned has only its content set. The name is spliced into the pattern as it
  is; \<open>ReplaceAllString\<close> stands for compiling the pattern and replacing with it.
\<close>

text \<open>The two characters \<open>\b\<close> of a pattern: a backslash and the letter b.\<close>

definition word_boundary :: string where
  "word_boundary = [CHR 0x5C, CHR ''b'']"

definition ReplaceAbbreviations :: "markup \<Rightarrow> Paragraph \<Rightarrow> (string \<times> string) list \<Rightarrow> Paragraph" where
  "ReplaceAbbreviations lib paragraph currentLanguageAbbreviations =
     \<lparr>Paragraph_ID = [], Index = 0, Paragraph_Anchor = [],
      Content =
        fold (\<lambda>(name, definition) processed.
                ReplaceAllString lib (word_boundary @ name @ word_boundary) (Content paragraph)
                  (''<abbr title='' @ [CHR 0x22] @ definition @ [CHR 0x22] @ ''>'' @ name @ ''</abbr>''))
          currentLanguageAbbreviations (Content paragraph)\<rparr>"

text \<open>The result of \<open>ParseSingleLanguageDescription\<close>, under the names of its results.\<close>

record SingleLanguageDescription =
  title :: string
  paragraphs :: "Paragraph list"
  mediae :: "MediaEmbedDeclaration list"
  links :: "Link list"
  footnotes :: "(string \<times> string) list"
  abbreviations :: "(string \<times> string) list"
  order :: "string list"

definition paragraphLikeTagNames :: string where
  "paragraphLikeTagNames = ''p ol ul h2 h3 h4 h5 h6 dl blockquote hr pre''"

text \<open>\<open>m[key] = value\<close> on a map kept as the list of its entries.\<close>

definition assign :: "'k \<Rightarrow> 'v \<Rightarrow> ('k \<times> 'v) list \<Rightarrow> ('k \<times> 'v) list" where
  "assign key v m = (if key \<in> fst ` set m then map (\<lambda>(k, old). if k = key then (k, v) else (k, old)) m
                     else m @ [(key, v)])"

text \<open>
  The loop over the paragraph-like nodes; \<open>n\<close> counts the calls of the generator of
  identifiers, one per node. The state is \<open>(paragraphs, mediae, links, abbreviations, order)\<close>.
\<close>

fun classify_loop ::
  "markup \<Rightarrow> nat \<Rightarrow> Root list \<Rightarrow>
   Paragraph list \<times> MediaEmbedDeclaration list \<times> Link list \<times> (string \<times> string) list \<times> string list \<Rightarrow>
   Paragraph list \<times> MediaEmbedDeclaration list \<times> Link list \<times> (string \<times> string) list \<times> string list" where
  "classify_loop lib n [] st = st"
| "classify_loop lib n (paragraph # rest) (ps, ms, ls, abbrs, ord) =
     (let childrenCount = length (Children paragraph);
          firstChild = (if 1 \<le> childrenCount then hd (Children paragraph) else Root False [] [] [] [] []);
          newID = idGenerator lib n
      in
      if childrenCount = 1 \<and> NodeValue firstChild = ''img'' then
        (case ExtractAttributesFromAlt (attr firstChild ''alt'') of
           (alt, attributes) \<Rightarrow>
             classify_loop lib (Suc n) rest
               (ps,
                ms @ [\<lparr>Anchor = Marshal lib (attr firstChild ''src'') False, ID = newID, Alt = alt,
                       Title = attr firstChild ''title'', Source = attr firstChild ''src'',
                       Attributes = attributes\<rparr>],
                ls, abbrs, ord @ [newID]))
      else if childrenCount = 1 \<and> NodeValue firstChild = ''a'' then
        classify_loop lib (Suc n) rest
          (ps, ms,
           ls @ [\<lparr>Link_ID = newID, Link_Anchor = Marshal lib (FullText firstChild) True,
                  Text = innerHTML firstChild, Link_Title = attr firstChild ''title'',
                  URL = attr firstChild ''href''\<rparr>],
           abbrs, ord @ [newID])
      else
        (case FindAbbreviationDefinition (innerHTML paragraph) of
           Some (name, definition) \<Rightarrow>
             classify_loop lib (Suc n) rest (ps, ms, ls, assign name definition abbrs, ord)
         | None \<Rightarrow>
             if FindLanguageMarker (innerHTML paragraph) \<noteq> None then
               classify_loop lib (Suc n) rest (ps, ms, ls, abbrs, ord)
             else
               classify_loop lib (Suc n) rest
                 (ps @ [\<lparr>Paragraph_ID = newID, Index = 0, Paragraph_Anchor = attr paragraph ''id'',
                         Content = HTML paragraph\<rparr>],
                  ms, ls, abbrs, ord @ [newID])))"

text \<open>The last loop: the paragraphs with their abbreviations replaced, \<open>pre\<close> blocks skipped.\<close>

definition processedParagraphs :: "markup \<Rightarrow> Paragraph list \<Rightarrow> (string \<times> string) list \<Rightarrow> Paragraph list" where
  "processedParagraphs lib ps abbrs =
     map (\<lambda>paragraph. ReplaceAbbreviations lib paragraph abbrs)
       (filter (\<lambda>paragraph. \<not> (HasPrefix (Content paragraph) ''<pre>'' \<and>
                                  HasSuffix (Content paragraph) ''</pre>'')) ps)"

text \<open>The title and the footnotes, read only when the tree has a first-level heading.\<close>

definition title_and_footnotes :: "Root \<Rightarrow> string \<times> (string \<times> string) list" where
  "title_and_footnotes htmlTree =
     (case Find ''h1'' htmlTree of
        None \<Rightarrow> ([], [])
      | Some h1 \<Rightarrow>
          (innerHTML h1,
           fold (\<lambda>li fs. assign (TrimPrefix (attr li ''id'') ''fn:'') (trimHTMLWhitespace (innerHTML li)) fs)
             (concat (map (FindAll ''li'')
                (filter (\<lambda>d. attr d ''class'' = ''footnotes'') (FindAll ''div'' htmlTree))))
             []))"

text \<open>
  \<open>ParseSingleLanguageDescription\<close>. The function ends with a bare \<open>return\<close>: it
  returns its named results, and \<open>processedParagraphs\<close> is not one of them. The HTML
  parser always builds a \<open>body\<close>; a tree without one is read as having no children.
\<close>

definition ParseSingleLanguageDescription :: "markup \<Rightarrow> string \<Rightarrow> SingleLanguageDescription" where
  "ParseSingleLanguageDescription lib markdownRaw =
     (let htmlTree = HTMLParse lib (MarkdownToHTML lib (HandleAltMediaEmbedSyntax lib markdownRaw));
          paragraphLike =
            filter (\<lambda>element. Contains paragraphLikeTagNames (NodeValue element))
              (case Find ''body'' htmlTree of None \<Rightarrow> [] | Some body \<Rightarrow> Children body)
      in
      (case classify_loop lib 0 paragraphLike ([], [], [], [], []) of
         (ps, ms, ls, abbrs, ord) \<Rightarrow>
           (case title_and_footnotes htmlTree of
              (t, fs) \<Rightarrow>
                (let processed = processedParagraphs lib ps abbrs in
                 \<lparr>title = t, paragraphs = ps, mediae = ms, links = ls, footnotes = fs,
                  abbreviations = abbrs, order = ord\<rparr>))))"

text \<open>
  A replacement of whole words for the examples: what \<open>ReplaceAllString\<close> does for a
  pattern \<open>\bname\b\<close> whose \<open>name\<close> is made of letters and digits. \<open>prevWord\<close>
  tells whether the character before is a word character.
\<close>

definition is_word_char :: "char \<Rightarrow> bool" where
  "is_word_char c \<longleftrightarrow>
     (let n = (of_char c :: nat) in
      (48 \<le> n \<and> n \<le> 57) \<or> (65 \<le> n \<and> n \<le> 90) \<or> (97 \<le> n \<and> n \<le> 122) \<or> n = 95)"

function replace_words :: "string \<Rightarrow> string \<Rightarrow> bool \<Rightarrow> string \<Rightarrow> string" where
  "replace_words name replacement prevWord [] = []"
| "replace_words name replacement prevWord (c # cs) =
     (if name \<noteq> [] \<and> \<not> prevWord \<and> HasPrefix (c # cs) name \<and>
         (case drop (length name) (c # cs) of [] \<Rightarrow> True | d # _ \<Rightarrow> \<not> is_word_char d)
      then replacement @ replace_words name replacement True (drop (length name) (c # cs))
      else c # replace_words name replacement (is_word_char c) cs)"
  by pat_completeness auto
termination
  by (relation "measure (\<lambda>(name, replacement, prevWord, s). length s)") auto

definition example_ReplaceAllString :: "string \<Rightarrow> string \<Rightarrow> string \<Rightarrow> string" where
  "example_ReplaceAllString pattern src replacement =
     replace_words (take (length pattern - 4) (drop 2 pattern)) replacement False src"

text \<open>
  The tree of the description \<open>Use the API now\<close> followed by the definition of the
  abbreviation \<open>API\<close>: a body with two paragraphs and the text between them.
\<close>

definition text_node :: "string \<Rightarrow> Root" where
  "text_node s = Root False s [] [] s s"

definition p_node :: "string \<Rightarrow> Root" where
  "p_node s = Root True ''p'' [] [text_node s] (''<p>'' @ s @ ''</p>'') s"

definition example_tree :: Root where
  "example_tree =
     Root False [] []
       [Root True ''html'' []
          [Root True ''head'' [] [] ''<head></head>'' [],
           Root True ''body'' []
             [p_node ''Use the API now'', text_node ''\<newline>\<newline>'',
              p_node ''*[API]: Application Programming Interface'', text_node ''\<newline>'']
             [] []]
          [] []]
       [] []"

definition example_markup :: markup where
  "example_markup =
     \<lparr>HandleAltMediaEmbedSyntax = (\<lambda>s. s),
      MarkdownToHTML = (\<lambda>s. s),
      HTMLParse = (\<lambda>s. example_tree),
      idGenerator = (\<lambda>n. replicate (Suc n) CHR ''x''),
      Marshal = (\<lambda>s flag. s),
      ReplaceAllString = example_ReplaceAllString\<rparr>"


section \<open>The build of the database (PrepareBuild, BuildSome, Build)\<close>

text \<open>
  The world a build runs in: the regular files with their contents, the directories that
  \<open>os.MkdirAll\<close> has made, the messages logged by \<open>LogError\<close> and
  \<open>LogInfo\<close>, and what was printed on the standard output.
\<close>

datatype log_entry = LogError string | LogInfo string

record World =
  files :: "string \<rightharpoonup> string"
  directories :: "string set"
  log :: "log_entry list"
  printed :: "string list"

text \<open>What a call gives back to its caller: a value, a returned error, or a panic.\<close>

datatype 'a result = Ok 'a | Failed error | Panicked error

datatype stat_result = Exists | NotExist | StatError error

type_synonym Layout = "string list list"

datatype 'media ContentBlock = ParagraphBlock Paragraph | MediaBlock 'media | LinkBlock Link

record 'media LocalizedWorkContent =
  Layout :: Layout
  Blocks :: "'media ContentBlock list"
  Localized_Title :: string
  Localized_Footnotes :: "(string \<times> string) list"

text \<open>
  The metadata of a work. The palette of colors is of a type that is not among the
  sources: it is the type parameter \<open>'c\<close>.
\<close>

record 'c WorkMetadata =
  Aliases :: "string list"
  Finished :: string
  Started :: string
  MadeWith :: "string list"
  Tags :: "string list"
  Thumbnail :: string
  TitleStyle :: string
  Colors :: 'c
  PageBackground :: string
  WIP :: bool
  Private :: bool
  AdditionalMetadata :: "(string \<times> string) list"

record ('c, 'media) AnalyzedWork =
  Work_ID :: string
  Work_Metadata :: "'c WorkMetadata"
  Localized :: "(string \<times> 'media LocalizedWorkContent) list"

text \<open>
  A parsed work. Its Go maps are iterated by \<open>Build\<close>, so each is the list of its
  entries in the order of the iteration.
\<close>

record 'c ParsedWork =
  Metadata :: "'c WorkMetadata"
  Titles :: "(string \<times> string) list"
  Paragraphs :: "(string \<times> Paragraph list) list"
  MediaEmbedDeclarations :: "(string \<times> MediaEmbedDeclaration list) list"
  Links :: "(string \<times> Link list) list"
  Footnotes :: "(string \<times> (string \<times> string) list) list"
  ContentBlocksOrders :: "(string \<times> string list) list"

record Flags =
  Flag_Scattered :: bool
  Silent :: bool
  Minified :: bool

record Configuration =
  Media_At :: string
  BuildMetadataFilepath :: string
  IsDefault :: bool
  Config_ScatteredModeFolder :: string
  ExtractColors_Enabled :: bool

text \<open>
  What the build takes from outside. The operating system: the errors of \<open>os.Stat\<close>
  (other than a missing file), \<open>os.ReadFile\<close>, \<open>os.WriteFile\<close>,
  \<open>os.MkdirAll\<close> and \<open>os.Remove\<close> by path, the directories that
  \<open>os.MkdirAll\<close> makes for a path (the path and those above it), the listing
  \<open>os.ReadDir\<close> as names with their \<open>IsDir\<close>, and the error of starting the
  spinner. The libraries: \<open>path.Join\<close>,
  \<open>filepath.Dir\<close>, \<open>filepath.Match\<close>, the verb \<open>%q\<close>, the JSON encoders and
  decoder. The functions and types of the repository that are not among the sources:
  \<open>FindWork\<close>, \<open>HandleMedia\<close>, \<open>ResolveLayout\<close>, the analysed media
  (type \<open>'media\<close>, with its \<open>ID\<close>, \<open>RelativeSource\<close> and \<open>Colors\<close>), the palette
  with its \<open>Empty()\<close> and its zero value. \<open>ParseDescription\<close> is the parser of a
  description, of which \<open>Build\<close> uses the result. The build metadata holds
  \<open>time.Now()\<close>: its JSON text after the build of a work is given by
  \<open>marshal_metadata\<close>.
\<close>

record ('c, 'media) system =
  stat_error :: "string \<Rightarrow> error option"
  read_error :: "string \<Rightarrow> error option"
  write_error :: "string \<Rightarrow> error option"
  mkdir_error :: "string \<Rightarrow> error option"
  remove_error :: "string \<Rightarrow> error option"
  ancestors :: "string \<Rightarrow> string list"
  ReadDir :: "string \<Rightarrow> error + (string \<times> bool) list"
  spinner_error :: "error option"
  path_Join :: "string list \<Rightarrow> string"
  filepath_Dir :: "string \<Rightarrow> string"
  filepath_Match :: "string \<Rightarrow> string \<Rightarrow> error + bool"
  quoted :: "string \<Rightarrow> string"
  marshal_works :: "bool \<Rightarrow> (string \<rightharpoonup> ('c, 'media) AnalyzedWork) \<Rightarrow> string"
  unmarshal_works :: "string \<Rightarrow> error + ('c, 'media) AnalyzedWork list"
  marshal_metadata :: "string \<Rightarrow> string"
  FindWork :: "('c, 'media) AnalyzedWork list \<Rightarrow> string \<Rightarrow> bool \<times> ('c, 'media) AnalyzedWork"
  ParseDescription :: "string \<Rightarrow> 'c ParsedWork"
  HandleMedia :: "string \<Rightarrow> MediaEmbedDeclaration \<Rightarrow> string \<Rightarrow> error + 'media"
  ResolveLayout :: "'c ParsedWork \<Rightarrow> string \<Rightarrow> error + Layout"
  media_ID :: "'media \<Rightarrow> string"
  media_RelativeSource :: "'media \<Rightarrow> string"
  media_Colors :: "'media \<Rightarrow> 'c"
  Colors_Empty :: "'c \<Rightarrow> bool"
  no_colors :: 'c

subsection \<open>The operating system\<close>

definition os_Stat :: "('c, 'media) system \<Rightarrow> World \<Rightarrow> string \<Rightarrow> stat_result" where
  "os_Stat sys world name =
     (case stat_error sys name of
        Some err \<Rightarrow> StatError err
      | None \<Rightarrow> if files world name = None then NotExist else Exists)"

text \<open>\<open>os.ReadFile\<close>: the content, or the error with whether it is \<open>IsNotExist\<close>.\<close>

definition os_ReadFile :: "('c, 'media) system \<Rightarrow> World \<Rightarrow> string \<Rightarrow> (bool \<times> error) + string" where
  "os_ReadFile sys world name =
     (case files world name of
        None \<Rightarrow> Inl (True, ''open '' @ name @ '': no such file or directory'')
      | Some content \<Rightarrow>
          (case read_error sys name of Some err \<Rightarrow> Inl (False, err) | None \<Rightarrow> Inr content))"

definition os_WriteFile ::
  "('c, 'media) system \<Rightarrow> string \<Rightarrow> string \<Rightarrow> World \<Rightarrow> error option \<times> World" where
  "os_WriteFile sys name content world =
     (case write_error sys name of
        Some err \<Rightarrow> (Some err, world)
      | None \<Rightarrow> (None, world\<lparr>files := (files world)(name \<mapsto> content)\<rparr>))"

text \<open>
  \<open>os.Remove\<close>: it fails on a missing file and when the system refuses, and then
  leaves the files as they are.
\<close>

definition os_Remove :: "('c, 'media) system \<Rightarrow> string \<Rightarrow> World \<Rightarrow> error option \<times> World" where
  "os_Remove sys name world =
     (if files world name = None then (Some (''remove '' @ name @ '': no such file or directory''), world)
      else (case remove_error sys name of
              Some err \<Rightarrow> (Some err, world)
            | None \<Rightarrow> (None, world\<lparr>files := (files world)(name := None)\<rparr>)))"

text \<open>
  \<open>os.MkdirAll\<close>: it fails on the path of a regular file and when the system
  refuses; otherwise the directory and those above it are there afterwards. No regular
  file is touched.
\<close>

definition mkdir_failure :: "('c, 'media) system \<Rightarrow> World \<Rightarrow> string \<Rightarrow> error option" where
  "mkdir_failure sys world name =
     (if files world name = None then mkdir_error sys name
      else Some (''mkdir '' @ name @ '': not a directory''))"

definition os_MkdirAll :: "('c, 'media) system \<Rightarrow> string \<Rightarrow> World \<Rightarrow> error option \<times> World" where
  "os_MkdirAll sys name world =
     (case mkdir_failure sys world name of
        Some err \<Rightarrow> (Some err, world)
      | None \<Rightarrow> (None, world\<lparr>directories := directories world \<union> set (ancestors sys name)\<rparr>))"

definition add_log :: "log_entry \<Rightarrow> World \<Rightarrow> World" where
  "add_log entry world = world\<lparr>log := log world @ [entry]\<rparr>"

definition println :: "string \<Rightarrow> World \<Rightarrow> World" where
  "println s world = world\<lparr>printed := printed world @ [s]\<rparr>"

subsection \<open>The build lock\<close>

definition buildLockFilepath :: "('c, 'media) system \<Rightarrow> string \<Rightarrow> string" where
  "buildLockFilepath sys outputFilename =
     path_Join sys [filepath_Dir sys outputFilename, ''.ortfomk-build-lock'']"

text \<open>The error of \<open>os.WriteFile\<close> is not looked at.\<close>

definition AcquireBuildLock ::
  "('c, 'media) system \<Rightarrow> string \<Rightarrow> World \<Rightarrow> error option \<times> World" where
  "AcquireBuildLock sys outputFilename world =
     (case os_Stat sys world (buildLockFilepath sys outputFilename) of
        NotExist \<Rightarrow> (None, snd (os_WriteFile sys (buildLockFilepath sys outputFilename) [] world))
      | Exists \<Rightarrow> (Some (''file '' @ buildLockFilepath sys outputFilename @ '' exists''), world)
      | StatError err \<Rightarrow>
          (Some (''while checking if file '' @ buildLockFilepath sys outputFilename @ '' exists: '' @ err),
           world))"

definition ReleaseBuildLock :: "('c, 'media) system \<Rightarrow> string \<Rightarrow> World \<Rightarrow> World" where
  "ReleaseBuildLock sys outputFilename world =
     (case os_Remove sys (buildLockFilepath sys outputFilename) world of
        (Some err, world') \<Rightarrow>
          add_log (LogError (''could not release build lockfile '' @
                     buildLockFilepath sys outputFilename @ '': '' @ err)) world'
      | (None, world') \<Rightarrow> world')"

subsection \<open>PrepareBuild\<close>

text \<open>
  The previous database: a missing file is silent, any other failure is logged.
  \<open>PrepareBuild\<close> also reads the build metadata file into the context; \<open>Build\<close>
  overwrites that value with the current time before it writes it, so the read is left out.
\<close>

definition load_previous ::
  "('c, 'media) system \<Rightarrow> string \<Rightarrow> World \<Rightarrow> ('c, 'media) AnalyzedWork list \<times> World" where
  "load_previous sys outputFilename world =
     (case os_ReadFile sys world outputFilename of
        Inl (notExist, err) \<Rightarrow>
          ([], if notExist then world
               else add_log (LogError (''Couldn't use previous built database file '' @
                      outputFilename @ '': '' @ err)) world)
      | Inr raw \<Rightarrow>
          (case unmarshal_works sys raw of
             Inl err \<Rightarrow>
               ([], add_log (LogError (''Couldn't use previous built database file '' @
                       outputFilename @ '': '' @ err)) world)
           | Inr previous \<Rightarrow> (previous, world)))"

definition PrepareBuild ::
  "('c, 'media) system \<Rightarrow> string \<Rightarrow> string \<Rightarrow> Flags \<Rightarrow> Configuration \<Rightarrow> World \<Rightarrow>
   ('c, 'media) AnalyzedWork list result \<times> World" where
  "PrepareBuild sys databaseDirectory outputFilename flags config world =
     (case load_previous sys outputFilename world of
        (previous, world1) \<Rightarrow>
          if \<not> Silent flags \<and> spinner_error sys \<noteq> None then
            (Panicked (case spinner_error sys of Some err \<Rightarrow> err | None \<Rightarrow> []), world1)
          else
            (let world2 =
                   (if IsDefault config then
                      add_log (LogInfo ''No configuration file found. The default configuration was used.'')
                        world1
                    else world1)
             in case os_MkdirAll sys (Media_At config) world2 of
                  (Some err, world3) \<Rightarrow>
                    (Failed (''while creating the media output directory: '' @ err), world3)
                | (None, world3) \<Rightarrow>
                    (case AcquireBuildLock sys outputFilename world3 of
                       (Some err, world4) \<Rightarrow>
                         (Failed (''another ortfo build is in progress (could not acquire build lock): ''
                                  @ err), world4)
                     | (None, world4) \<Rightarrow> (Ok previous, world4))))"

subsection \<open>Build: one work\<close>

text \<open>The zero value \<open>AnalyzedWork{}\<close>.\<close>

definition no_metadata :: "('c, 'media) system \<Rightarrow> 'c WorkMetadata" where
  "no_metadata sys =
     \<lparr>Aliases = [], Finished = [], Started = [], MadeWith = [], Tags = [], Thumbnail = [],
      TitleStyle = [], Colors = no_colors sys, PageBackground = [], WIP = False, Private = False,
      AdditionalMetadata = []\<rparr>"

definition no_work :: "('c, 'media) system \<Rightarrow> ('c, 'media) AnalyzedWork" where
  "no_work sys = \<lparr>Work_ID = [], Work_Metadata = no_metadata sys, Localized = []\<rparr>"

text \<open>\<open>m[key]\<close> on a map kept as the list of its entries; a missing key reads as \<open>zero\<close>.\<close>

definition entry :: "('k \<times> 'v) list \<Rightarrow> 'k \<Rightarrow> 'v \<Rightarrow> 'v" where
  "entry m key zero = (case map_of m key of None \<Rightarrow> zero | Some v \<Rightarrow> v)"

definition description_path ::
  "('c, 'media) system \<Rightarrow> Flags \<Rightarrow> Configuration \<Rightarrow> string \<Rightarrow> string \<Rightarrow> string" where
  "description_path sys flags config databaseDirectory workID =
     (if Flag_Scattered flags
      then path_Join sys [databaseDirectory, workID, Config_ScatteredModeFolder config, ''description.md'']
      else path_Join sys [databaseDirectory, workID, ''description.md''])"

text \<open>The media of one language: a media that \<open>HandleMedia\<close> refuses is logged and skipped.\<close>

fun handle_mediae ::
  "('c, 'media) system \<Rightarrow> string \<Rightarrow> string \<Rightarrow> MediaEmbedDeclaration list \<Rightarrow> 'media list \<times> World \<Rightarrow>
   'media list \<times> World" where
  "handle_mediae sys workID lang [] st = st"
| "handle_mediae sys workID lang (media # embeds) (analyzed, world) =
     (case HandleMedia sys workID media lang of
        Inl err \<Rightarrow> handle_mediae sys workID lang embeds (analyzed, add_log (LogError err) world)
      | Inr m \<Rightarrow> handle_mediae sys workID lang embeds (analyzed @ [m], world))"

fun handle_languages ::
  "('c, 'media) system \<Rightarrow> string \<Rightarrow> (string \<times> MediaEmbedDeclaration list) list \<Rightarrow>
   (string \<times> 'media list) list \<times> World \<Rightarrow> (string \<times> 'media list) list \<times> World" where
  "handle_languages sys workID [] st = st"
| "handle_languages sys workID ((lang, embeds) # rest) (analyzedMediae, world) =
     (case handle_mediae sys workID lang embeds ([], world) of
        (analyzed, world') \<Rightarrow>
          handle_languages sys workID rest (analyzedMediae @ [(lang, analyzed)], world'))"

text \<open>The colors of the work, when they are to be extracted and none were written.\<close>

definition extract_colors ::
  "('c, 'media) system \<Rightarrow> Configuration \<Rightarrow> (string \<times> 'media list) list \<Rightarrow> 'c WorkMetadata \<Rightarrow>
   'c WorkMetadata" where
  "extract_colors sys config analyzedMediae metadata =
     (if ExtractColors_Enabled config \<and> Colors_Empty sys (Colors metadata) then
        (if Thumbnail metadata \<noteq> [] then
           (case find (\<lambda>m. media_RelativeSource sys m = Thumbnail metadata)
                   (concat (map snd analyzedMediae)) of
              Some m \<Rightarrow> metadata\<lparr>Colors := media_Colors sys m\<rparr>
            | None \<Rightarrow> metadata)
         else
           (case find (\<lambda>ms. ms \<noteq> []) (map snd analyzedMediae) of
              Some ms \<Rightarrow> metadata\<lparr>Colors := media_Colors sys (hd ms)\<rparr>
            | None \<Rightarrow> metadata))
      else metadata)"

definition ContentBlockByID ::
  "('c, 'media) system \<Rightarrow> string \<Rightarrow> (string \<times> Paragraph list) list \<Rightarrow> (string \<times> 'media list) list \<Rightarrow>
   (string \<times> Link list) list \<Rightarrow> 'media ContentBlock option" where
  "ContentBlockByID sys blockID allLanguagesParagraphs allLanguagesMediae allLanguagesLinks =
     (case find (\<lambda>paragraph. Paragraph_ID paragraph = blockID)
             (concat (map snd allLanguagesParagraphs)) of
        Some paragraph \<Rightarrow> Some (ParagraphBlock paragraph)
      | None \<Rightarrow>
          (case find (\<lambda>media. media_ID sys media = blockID) (concat (map snd allLanguagesMediae)) of
             Some media \<Rightarrow> Some (MediaBlock media)
           | None \<Rightarrow>
               (case find (\<lambda>link. Link_ID link = blockID) (concat (map snd allLanguagesLinks)) of
                  Some link \<Rightarrow> Some (LinkBlock link)
                | None \<Rightarrow> None)))"

text \<open>The blocks of one language, in order; a block that is not found is logged and skipped.\<close>

fun collect_blocks ::
  "('c, 'media) system \<Rightarrow> 'c ParsedWork \<Rightarrow> (string \<times> 'media list) list \<Rightarrow> string list \<Rightarrow>
   'media ContentBlock list \<times> World \<Rightarrow> 'media ContentBlock list \<times> World" where
  "collect_blocks sys description analyzedMediae [] st = st"
| "collect_blocks sys description analyzedMediae (blockID # rest) (blocks, world) =
     (case ContentBlockByID sys blockID (Paragraphs description) analyzedMediae (Links description) of
        None \<Rightarrow>
          collect_blocks sys description analyzedMediae rest
            (blocks, add_log (LogError (''Could not find block with ID '' @ blockID)) world)
      | Some block \<Rightarrow> collect_blocks sys description analyzedMediae rest (blocks @ [block], world))"

text \<open>
  The loop over the languages of the paragraphs: the first layout that does not resolve
  ends the build of the work with its error.
\<close>

fun localize ::
  "('c, 'media) system \<Rightarrow> string \<Rightarrow> 'c ParsedWork \<Rightarrow> (string \<times> 'media list) list \<Rightarrow> string list \<Rightarrow>
   (string \<times> 'media LocalizedWorkContent) list \<times> World \<Rightarrow>
   (error + (string \<times> 'media LocalizedWorkContent) list) \<times> World" where
  "localize sys workID description analyzedMediae [] (localizedContent, world) =
     (Inr localizedContent, world)"
| "localize sys workID description analyzedMediae (lang # rest) (localizedContent, world) =
     (case ResolveLayout sys description lang of
        Inl err \<Rightarrow>
          (Inl (''while resolving '' @ lang @ '' layout of '' @ workID @ '': '' @ err), world)
      | Inr layout \<Rightarrow>
          (case collect_blocks sys description analyzedMediae
                  (entry (ContentBlocksOrders description) lang []) ([], world) of
             (blocks, world') \<Rightarrow>
               localize sys workID description analyzedMediae rest
                 (assign lang
                    \<lparr>Layout = layout, Blocks = blocks,
                     Localized_Title = entry (Titles description) lang [],
                     Localized_Footnotes = entry (Footnotes description) lang []\<rparr>
                    localizedContent,
                  world')))"

text \<open>
  \<open>WriteBuildMetadata\<close>: when the file is missing its directory is made first, the
  error of that not looked at. \<open>Build\<close> does not look at the error of the whole.
\<close>

definition WriteBuildMetadata ::
  "('c, 'media) system \<Rightarrow> Configuration \<Rightarrow> string \<Rightarrow> World \<Rightarrow> World" where
  "WriteBuildMetadata sys config workID world =
     (case os_Stat sys world (BuildMetadataFilepath config) of
        StatError err \<Rightarrow> world
      | NotExist \<Rightarrow>
          snd (os_WriteFile sys (BuildMetadataFilepath config) (marshal_metadata sys workID)
                 (snd (os_MkdirAll sys (filepath_Dir sys (BuildMetadataFilepath config)) world)))
      | Exists \<Rightarrow>
          snd (os_WriteFile sys (BuildMetadataFilepath config) (marshal_metadata sys workID) world))"

text \<open>\<open>Build\<close> returns a work and an error: with an error, the work is \<open>AnalyzedWork{}\<close>.\<close>

definition Build ::
  "('c, 'media) system \<Rightarrow> Flags \<Rightarrow> Configuration \<Rightarrow> string \<Rightarrow> string \<Rightarrow> string \<Rightarrow> World \<Rightarrow>
   (('c, 'media) AnalyzedWork \<times> error option) \<times> World" where
  "Build sys flags config databaseDirectory outputFilename workID world =
     (case os_ReadFile sys world (description_path sys flags config databaseDirectory workID) of
        Inl (notExist, err) \<Rightarrow> ((no_work sys, Some err), world)
      | Inr descriptionRaw \<Rightarrow>
          (let description = ParseDescription sys descriptionRaw in
           case handle_languages sys workID (MediaEmbedDeclarations description) ([], world) of
             (analyzedMediae, world1) \<Rightarrow>
               (case localize sys workID description analyzedMediae
                       (map fst (Paragraphs description)) ([], world1) of
                  (Inl err, world2) \<Rightarrow> ((no_work sys, Some err), world2)
                | (Inr localizedContent, world2) \<Rightarrow>
                    ((\<lparr>Work_ID = workID,
                       Work_Metadata = extract_colors sys config analyzedMediae (Metadata description),
                       Localized = localizedContent\<rparr>, None),
                     WriteBuildMetadata sys config workID world2))))"

subsection \<open>BuildSome: the whole database\<close>

text \<open>The directories of the database that hold a description.\<close>

definition ComputeProgressTotal ::
  "('c, 'media) system \<Rightarrow> Flags \<Rightarrow> Configuration \<Rightarrow> string \<Rightarrow> World \<Rightarrow> error + string list" where
  "ComputeProgressTotal sys flags config databaseDirectory world =
     (case ReadDir sys databaseDirectory of
        Inl err \<Rightarrow> Inl err
      | Inr databaseFiles \<Rightarrow>
          Inr (map fst
                (filter (\<lambda>(name, isDir). isDir \<and> name \<noteq> ''../'' \<and> name \<noteq> ''./'' \<and>
                           os_Stat sys world (description_path sys flags config databaseDirectory name)
                             \<noteq> NotExist)
                   databaseFiles)))"

text \<open>
  The loop over the work directories. The state is the map \<open>works\<close> and the world; an
  include pattern that is malformed ends the run with its error.
\<close>

fun works_loop ::
  "('c, 'media) system \<Rightarrow> string \<Rightarrow> string \<Rightarrow> string \<Rightarrow> Flags \<Rightarrow> Configuration \<Rightarrow>
   ('c, 'media) AnalyzedWork list \<Rightarrow> string list \<Rightarrow>
   (string \<rightharpoonup> ('c, 'media) AnalyzedWork) \<times> World \<Rightarrow>
   (error + (string \<rightharpoonup> ('c, 'media) AnalyzedWork)) \<times> World" where
  "works_loop sys include databaseDirectory outputFilename flags config previous [] (works, world) =
     (Inr works, world)"
| "works_loop sys include databaseDirectory outputFilename flags config previous (workID # rest)
     (works, world) =
     (case (if include = ''*'' then Inr True else filepath_Match sys include workID) of
        Inl err \<Rightarrow>
          (Inl (''while testing include-works pattern '' @ quoted sys include @ '': '' @ err), world)
      | Inr included \<Rightarrow>
          if included then
            (case Build sys flags config databaseDirectory outputFilename workID world of
               ((newWork, err), world') \<Rightarrow>
                 works_loop sys include databaseDirectory outputFilename flags config previous rest
                   (works(workID \<mapsto> newWork),
                    (case err of
                       Some e \<Rightarrow> add_log (LogError (''while building '' @ workID @ '': '' @ e)) world'
                     | None \<Rightarrow> world')))
          else if fst (FindWork sys previous workID) then
            works_loop sys include databaseDirectory outputFilename flags config previous rest
              (works(workID \<mapsto> snd (FindWork sys previous workID)), world)
          else
            works_loop sys include databaseDirectory outputFilename flags config previous rest
              (works,
               add_log (LogInfo (''Skipped building of work '' @ workID @
                  '', as it is neither included in '' @ include @ '' nor formerly present in '' @
                  outputFilename @ ''.'')) world))"

definition WriteDatabase ::
  "('c, 'media) system \<Rightarrow> (string \<rightharpoonup> ('c, 'media) AnalyzedWork) \<Rightarrow> Flags \<Rightarrow> string \<Rightarrow> World \<Rightarrow> World" where
  "WriteDatabase sys works flags outputFilename world =
     (if outputFilename = ''-'' then println (marshal_works sys (Minified flags) works) world
      else (case os_WriteFile sys outputFilename (marshal_works sys (Minified flags) works) world of
              (Some err, world') \<Rightarrow> println err world'
            | (None, world') \<Rightarrow> world'))"

text \<open>
  \<open>BuildSome\<close>. Once \<open>PrepareBuild\<close> has returned without error, the release of the
  lock is deferred: it runs when the function returns, whatever the way.
\<close>

definition BuildSome ::
  "('c, 'media) system \<Rightarrow> string \<Rightarrow> string \<Rightarrow> string \<Rightarrow> Flags \<Rightarrow> Configuration \<Rightarrow> World \<Rightarrow>
   unit result \<times> World" where
  "BuildSome sys include databaseDirectory outputFilename flags config world =
     (case PrepareBuild sys databaseDirectory outputFilename flags config world of
        (Panicked err, world1) \<Rightarrow> (Panicked err, world1)
      | (Failed err, world1) \<Rightarrow> (Failed err, world1)
      | (Ok previous, world1) \<Rightarrow>
          (case (case ComputeProgressTotal sys flags config databaseDirectory world1 of
                   Inl err \<Rightarrow>
                     (Failed (''while computing total number of works to build: '' @ err), world1)
                 | Inr workDirectories \<Rightarrow>
                     (case works_loop sys include databaseDirectory outputFilename flags config
                             previous workDirectories (Map.empty, world1) of
                        (Inl err, world2) \<Rightarrow> (Failed err, world2)
                      | (Inr works, world2) \<Rightarrow>
                          (Ok (), WriteDatabase sys works flags outputFilename world2))) of
             (outcome, world3) \<Rightarrow> (outcome, ReleaseBuildLock sys outputFilename world3)))"

definition BuildAll ::
  "('c, 'media) system \<Rightarrow> string \<Rightarrow> string \<Rightarrow> Flags \<Rightarrow> Configuration \<Rightarrow> World \<Rightarrow>
   unit result \<times> World" where
  "BuildAll sys databaseDirectory outputFilename flags config world =
     BuildSome sys ''*'' databaseDirectory outputFilename flags config world"

subsection \<open>The layout resolver\<close>

text \<open>
  Modelled from the spec: \<open>ResolveLayout\<close> is not among the sources, only its call in
  \<open>Build\<close> is. The specification (4.7) gives it the content-block order of the
  language and an optional declared layout. With no declared layout, the grid has one
  block per row, in the order of the blocks. With a declared layout, every cell that is
  not empty must be a block ID of the order; otherwise the resolution fails with an error
  that names the language and the dangling reference. The sentinel of an empty cell is not
  named by the specification: it is taken to be the empty string.
\<close>

datatype layout_error = DanglingReference string string

definition EmptyLayoutCell :: string where
  "EmptyLayoutCell = []"

definition is_dangling :: "string list \<Rightarrow> string \<Rightarrow> bool" where
  "is_dangling blockOrder cell \<longleftrightarrow> cell \<noteq> EmptyLayoutCell \<and> cell \<notin> set blockOrder"

definition ResolveLayout_spec :: "Layout option \<Rightarrow> string list \<Rightarrow> string \<Rightarrow> layout_error + Layout" where
  "ResolveLayout_spec declared blockOrder language =
     (case declared of
        None \<Rightarrow> Inr (map (\<lambda>blockID. [blockID]) blockOrder)
      | Some rows \<Rightarrow>
          (case find (is_dangling blockOrder) (concat rows) of
             Some cell \<Rightarrow> Inl (DanglingReference language cell)
           | None \<Rightarrow> Inr rows))"

text \<open>
  Modelled from the spec: the text of the error, which identifies the language and the
  block ID.
\<close>

definition describe_layout_error :: "layout_error \<Rightarrow> string" where
  "describe_layout_error e =
     (case e of DanglingReference language cell \<Rightarrow>
        ''layout of language '' @ language @ '' references unknown block '' @ cell)"

subsection \<open>A small database for the examples\<close>

text \<open>
  Two works, \<open>bad\<close> and \<open>good\<close>, under the directory \<open>db\<close>. A path is joined
  with slashes; the output is written beside the lock \<open>./.ortfomk-build-lock\<close>. A
  description is one paragraph holding its text; a description that reads
  \<open>layout: ghost\<close> declares a layout with the unknown block \<open>ghost\<close>. The JSON of
  the works lists, for \<open>bad\<close> and \<open>good\<close>, the key and the ID of its entry.
\<close>

definition example_description :: "string \<Rightarrow> (string list) ParsedWork" where
  "example_description raw =
     \<lparr>Metadata =
        \<lparr>Aliases = [], Finished = [], Started = [], MadeWith = [], Tags = [], Thumbnail = [],
         TitleStyle = [], Colors = [], PageBackground = [], WIP = False, Private = False,
         AdditionalMetadata = (if raw = ''layout: ghost'' then [(''layout'', ''ghost'')] else [])\<rparr>,
      Titles = [(''default'', [])],
      Paragraphs =
        [(''default'', [\<lparr>Paragraph_ID = ''p1'', Index = 0, Paragraph_Anchor = [], Content = raw\<rparr>])],
      MediaEmbedDeclarations = [(''default'', [])],
      Links = [(''default'', [])],
      Footnotes = [(''default'', [])],
      ContentBlocksOrders = [(''default'', [''p1''])]\<rparr>"

definition example_declared_layout :: "(string list) ParsedWork \<Rightarrow> Layout option" where
  "example_declared_layout description =
     (case map_of (AdditionalMetadata (Metadata description)) ''layout'' of
        None \<Rightarrow> None
      | Some cell \<Rightarrow> Some [[cell]])"

definition example_system :: "(string list, string \<times> string) system" where
  "example_system =
     \<lparr>stat_error = (\<lambda>name. None),
      read_error = (\<lambda>name. if name = ''db/bad/description.md'' then Some ''permission denied'' else None),
      write_error = (\<lambda>name. None),
      mkdir_error = (\<lambda>name. if name = ''/proc/media'' then Some ''permission denied'' else None),
      remove_error = (\<lambda>name. None),
      ancestors = (\<lambda>name. [name]),
      ReadDir = (\<lambda>name. Inr [(''bad'', True), (''good'', True), (''notes.txt'', False)]),
      spinner_error = None,
      path_Join = (\<lambda>parts. hd parts @ concat (map (\<lambda>part. ''/'' @ part) (tl parts))),
      filepath_Dir = (\<lambda>name. ''.''),
      filepath_Match = (\<lambda>pattern name. Inr (pattern = name)),
      quoted = (\<lambda>s. s),
      marshal_works =
        (\<lambda>minified works.
           concat (map (\<lambda>key. case works key of None \<Rightarrow> [] | Some w \<Rightarrow> key @ ''='' @ Work_ID w @ '';'')
             [''bad'', ''good''])),
      unmarshal_works = (\<lambda>raw. Inr []),
      marshal_metadata = (\<lambda>workID. workID),
      FindWork = (\<lambda>previous workID. (False, \<lparr>Work_ID = [], Work_Metadata = Metadata (example_description []), Localized = []\<rparr>)),
      ParseDescription = example_description,
      HandleMedia = (\<lambda>workID media lang. Inl ''no media''),
      ResolveLayout =
        (\<lambda>description lang.
           case ResolveLayout_spec (example_declared_layout description)
                  (entry (ContentBlocksOrders description) lang []) lang of
             Inl e \<Rightarrow> Inl (describe_layout_error e)
           | Inr layout \<Rightarrow> Inr layout),
      media_ID = fst,
      media_RelativeSource = snd,
      media_Colors = (\<lambda>media. []),
      Colors_Empty = (\<lambda>colors. colors = []),
      no_colors = []\<rparr>"

definition example_flags :: Flags where
  "example_flags = \<lparr>Flag_Scattered = False, Silent = True, Minified = True\<rparr>"

definition example_config :: "string \<Rightarrow> Configuration" where
  "example_config mediaAt =
     \<lparr>Media_At = mediaAt, BuildMetadataFilepath = ''meta.json'', IsDefault = False,
      Config_ScatteredModeFolder = [], ExtractColors_Enabled = False\<rparr>"

definition example_world :: "(string \<times> string) list \<Rightarrow> World" where
  "example_world fs = \<lparr>files = map_of fs, directories = {}, log = [], printed = []\<rparr>"



section \<open>Properties of the sigil decoder\<close>

lemmas rune_defs = RuneLoop_def RuneAutoplay_def RuneHideControls_def

lemma extract_loop_outside: "extract_loop cs (False, t, a) = (False, rev cs @ t, a)"
  by (induction cs arbitrary: t) auto

lemma extract_loop_attrs:
  "snd (snd (extract_loop cs (True, t, a))) =
     fold apply_sigil (takeWhile (\<lambda>c. c \<noteq> CHR '' '') cs) a"
  by (induction cs arbitrary: t a) (auto simp: extract_loop_outside)

lemma fold_Loop: "Loop (fold apply_sigil zs a) \<longleftrightarrow> Loop a \<or> RuneLoop \<in> set zs"
  by (induction zs arbitrary: a) (auto simp: apply_sigil_def rune_defs)

lemma fold_Autoplay: "Autoplay (fold apply_sigil zs a) \<longleftrightarrow> Autoplay a \<or> RuneAutoplay \<in> set zs"
  by (induction zs arbitrary: a) (auto simp: apply_sigil_def rune_defs)

lemma fold_Muted: "Muted (fold apply_sigil zs a) \<longleftrightarrow> Muted a \<or> RuneAutoplay \<in> set zs"
  by (induction zs arbitrary: a) (auto simp: apply_sigil_def rune_defs)

lemma fold_Playsinline:
  "Playsinline (fold apply_sigil zs a) \<longleftrightarrow> Playsinline a \<or> RuneHideControls \<in> set zs"
  by (induction zs arbitrary: a) (auto simp: apply_sigil_def rune_defs)

lemma fold_Controls:
  "Controls (fold apply_sigil zs a) \<longleftrightarrow> Controls a \<and> RuneHideControls \<notin> set zs"
  by (induction zs arbitrary: a) (auto simp: apply_sigil_def rune_defs)

lemmas fold_attrs = fold_Loop fold_Autoplay fold_Muted fold_Playsinline fold_Controls

lemma extract_loop_never_cleared:
  "never_cleared a (snd (snd (extract_loop cs (z, t, a))))"
  by (cases z) (simp_all add: extract_loop_outside extract_loop_attrs fold_attrs never_cleared_def)

lemma attrs_of_alt:
  "snd (ExtractAttributesFromAlt alt) = fold apply_sigil (consumed_sigils alt) default_attributes"
  using extract_loop_attrs[of "rev alt" "[]" default_attributes]
  by (auto simp: ExtractAttributesFromAlt_def consumed_sigils_def split: prod.splits)

lemma no_sigil_unchanged:
  "alt = [] \<or> \<not> isMediaEmbedAttribute (last alt) \<Longrightarrow>
     ExtractAttributesFromAlt alt = (alt, default_attributes)"
  by (simp add: ExtractAttributesFromAlt_def)

text \<open>
  C4. The alt text \<open>a photo>\<close> ends with the autoplay sigil, so the loop runs. It
  sets autoplay and muted, as the claim says, but every rune after the last space is read
  inside the attributes zone and the runes that are no sigil are dropped there: the clean
  alt text is \<open>a\<close>, not \<open>a photo\<close>. An alt text with no final sigil comes
  back unchanged with the default attributes.
\<close>

theorem ExtractAttributesFromAlt_a_photo:
  "ExtractAttributesFromAlt ''a photo>'' =
     (''a'', \<lparr>Loop = False, Autoplay = True, Muted = True, Playsinline = False, Controls = True\<rparr>)
   \<and> ExtractAttributesFromAlt ''a photo'' =
     (''a photo'', \<lparr>Loop = False, Autoplay = False, Muted = False, Playsinline = False, Controls = True\<rparr>)"
  by (simp add: ExtractAttributesFromAlt_def isMediaEmbedAttribute_def rune_defs apply_sigil_def
      default_attributes_def)

text \<open>
  C5. For every alt text: \<open>Controls\<close> is on unless the hide-controls sigil was read
  in the attributes zone; \<open>Loop\<close>, \<open>Autoplay\<close>, \<open>Muted\<close> and
  \<open>Playsinline\<close> are on exactly when their sigil was read there; autoplay implies
  muted; controls off implies playsinline; and no step of the loop switches an attribute
  off or switches \<open>Controls\<close> back on.
\<close>

theorem ExtractAttributesFromAlt_invariants:
  fixes alt :: string
  defines "attrs \<equiv> snd (ExtractAttributesFromAlt alt)"
  shows "(Controls attrs \<longleftrightarrow> RuneHideControls \<notin> set (consumed_sigils alt)) \<and>
         (Loop attrs \<longleftrightarrow> RuneLoop \<in> set (consumed_sigils alt)) \<and>
         (Autoplay attrs \<longleftrightarrow> RuneAutoplay \<in> set (consumed_sigils alt)) \<and>
         (Muted attrs \<longleftrightarrow> RuneAutoplay \<in> set (consumed_sigils alt)) \<and>
         (Playsinline attrs \<longleftrightarrow> RuneHideControls \<in> set (consumed_sigils alt)) \<and>
         (Autoplay attrs \<longrightarrow> Muted attrs) \<and>
         (\<not> Controls attrs \<longrightarrow> Playsinline attrs) \<and>
         (\<forall>cs z t a. never_cleared a (snd (snd (extract_loop cs (z, t, a)))))"
  unfolding attrs_def attrs_of_alt
  by (simp add: fold_attrs default_attributes_def extract_loop_never_cleared)

theorem ExtractAttributesFromAlt_invariants_witness:
  "Autoplay (snd (ExtractAttributesFromAlt ''cat ~>='')) \<and>
   Muted (snd (ExtractAttributesFromAlt ''cat ~>='')) \<and>
   Loop (snd (ExtractAttributesFromAlt ''cat ~>='')) \<and>
   \<not> Controls (snd (ExtractAttributesFromAlt ''cat ~>='')) \<and>
   Playsinline (snd (ExtractAttributesFromAlt ''cat ~>='')) \<and>
   consumed_sigils ''cat ~>='' = ''=>~'' \<and>
   Loop (snd (snd (extract_loop ''>= x''
     (True, [], \<lparr>Loop = True, Autoplay = False, Muted = False, Playsinline = False, Controls = True\<rparr>)))) \<and>
   never_cleared \<lparr>Loop = True, Autoplay = False, Muted = False, Playsinline = False, Controls = True\<rparr>
     (snd (snd (extract_loop ''>= x''
     (True, [], \<lparr>Loop = True, Autoplay = False, Muted = False, Playsinline = False, Controls = True\<rparr>))))"
  using ExtractAttributesFromAlt_invariants [of "''cat ~>=''"]
  by (simp add: consumed_sigils_def isMediaEmbedAttribute_def rune_defs apply_sigil_def
      never_cleared_def)

section \<open>Properties of the language sectioner\<close>

lemma Split_from_not_Nil: "Split_from piece s \<noteq> []"
  by (induction s arbitrary: piece) auto

lemma FindLanguageMarker_not_Nil: "FindLanguageMarker s \<noteq> Some []"
  by (auto simp: FindLanguageMarker_def spaces_then_rest_def Let_def split: list.splits if_splits)

lemma split_loop_append: "split_loop (xs @ ys) st = split_loop ys (split_loop xs st)"
proof (induction xs arbitrary: st)
  case Nil
  show ?case by simp
next
  case (Cons x xs)
  obtain cur before m where st: "st = (cur, before, m)" by (cases st)
  show ?case unfolding st using Cons.IH
    by (simp split: option.splits)
qed

text \<open>A bucket that is not current is left alone while no marker names it.\<close>

lemma split_loop_other:
  "cur \<noteq> L \<Longrightarrow> \<forall>y\<in>set ys. FindLanguageMarker y \<noteq> Some L \<Longrightarrow>
     snd (snd (split_loop ys (cur, before, m))) L = m L"
proof (induction ys arbitrary: cur before m)
  case Nil
  show ?case by simp
next
  case (Cons y ys)
  show ?case
  proof (cases "FindLanguageMarker y")
    case None
    show ?thesis
    proof (cases "cur = []")
      case True
      with Cons.prems have "[] \<noteq> L" by simp
      from Cons.IH[OF this] Cons.prems None True show ?thesis by simp
    next
      case False
      have "snd (snd (split_loop ys (cur, before,
              m(cur \<mapsto> (case m cur of None \<Rightarrow> [] | Some b \<Rightarrow> b) @ y @ ''\<newline>'')))) L =
            (m(cur \<mapsto> (case m cur of None \<Rightarrow> [] | Some b \<Rightarrow> b) @ y @ ''\<newline>'')) L"
        using Cons.prems by (intro Cons.IH) auto
      with Cons.prems None False show ?thesis by simp
    qed
  next
    case (Some l)
    with Cons.prems have "l \<noteq> L" by auto
    moreover have "l \<noteq> []" using Some FindLanguageMarker_not_Nil[of y] by auto
    ultimately show ?thesis using Some Cons by simp
  qed
qed

text \<open>The current bucket grows by the lines up to the next marker.\<close>

lemma split_loop_current:
  "L \<noteq> [] \<Longrightarrow> m L = Some b \<Longrightarrow> \<forall>y\<in>set ys. FindLanguageMarker y \<noteq> Some L \<Longrightarrow>
     snd (snd (split_loop ys (L, before, m))) L =
       Some (b @ unlines (takeWhile (\<lambda>l. \<not> is_marker l) ys))"
proof (induction ys arbitrary: before m b)
  case Nil
  then show ?case by (simp add: unlines_def)
next
  case (Cons y ys)
  show ?case
  proof (cases "FindLanguageMarker y")
    case None
    then have nm: "\<not> is_marker y" by (simp add: is_marker_def)
    have "snd (snd (split_loop ys (L, before, m(L \<mapsto> b @ y @ ''\<newline>'')))) L =
          Some ((b @ y @ ''\<newline>'') @ unlines (takeWhile (\<lambda>l. \<not> is_marker l) ys))"
      using Cons.prems by (intro Cons.IH) auto
    then show ?thesis using None nm Cons.prems by (simp add: unlines_def)
  next
    case (Some l)
    then have mk: "is_marker y" by (simp add: is_marker_def)
    from Some Cons.prems have "l \<noteq> L" by auto
    moreover have "l \<noteq> []" using Some FindLanguageMarker_not_Nil[of y] by auto
    moreover have "\<forall>y\<in>set ys. FindLanguageMarker y \<noteq> Some L" using Cons.prems by simp
    ultimately have "snd (snd (split_loop ys (l, before, m(l \<mapsto> [], l \<mapsto> y @ ''\<newline>'')))) L = (m(l \<mapsto> [], l \<mapsto> y @ ''\<newline>'')) L"
      by (intro split_loop_other) auto
    then show ?thesis using Some mk Cons.prems \<open>l \<noteq> L\<close> \<open>l \<noteq> []\<close> by (simp add: unlines_def)
  qed
qed

lemma split_loop_from_marker:
  assumes "FindLanguageMarker mk = Some L" and "\<forall>y\<in>set ys. FindLanguageMarker y \<noteq> Some L"
  shows "snd (snd (split_loop (mk # ys) st)) L =
           Some (unlines (mk # takeWhile (\<lambda>l. \<not> is_marker l) ys))"
proof -
  obtain cur before m where st: "st = (cur, before, m)" by (cases st)
  have L: "L \<noteq> []" using assms(1) FindLanguageMarker_not_Nil[of mk] by auto
  have "snd (snd (split_loop ys (L, before, m(L \<mapsto> [], L \<mapsto> mk @ ''\<newline>'')))) L =
          Some ((mk @ ''\<newline>'') @ unlines (takeWhile (\<lambda>l. \<not> is_marker l) ys))"
    using L assms(2) by (intro split_loop_current) auto
  then show ?thesis unfolding st using assms(1) L by (simp add: unlines_def)
qed

lemma split_loop_last_marker:
  assumes "FindLanguageMarker mk = Some L" and "\<forall>y\<in>set ys. FindLanguageMarker y \<noteq> Some L"
  shows "snd (snd (split_loop (xs @ mk # ys) st)) L =
           Some (unlines (mk # takeWhile (\<lambda>l. \<not> is_marker l) ys))"
  unfolding split_loop_append by (rule split_loop_from_marker[OF assms])

lemma split_loop_before:
  "fst (snd (split_loop ys ([], before, m))) = before @ unlines (takeWhile (\<lambda>l. \<not> is_marker l) ys)"
proof (induction ys arbitrary: before m)
  case Nil
  show ?case by (simp add: unlines_def)
next
  case (Cons y ys)
  show ?case
  proof (cases "FindLanguageMarker y")
    case None
    then show ?thesis using Cons by (simp add: is_marker_def unlines_def)
  next
    case (Some l)
    have "l \<noteq> []" using Some FindLanguageMarker_not_Nil[of y] by auto
    moreover have "fst (snd (split_loop zs (c, b, m'))) = b" if "c \<noteq> []" for zs c b m'
      using that
    proof (induction zs arbitrary: c b m')
      case Nil show ?case by simp
    next
      case (Cons z zs)
      show ?case
      proof (cases "FindLanguageMarker z")
        case None then show ?thesis using Cons by simp
      next
        case (Some k)
        have "k \<noteq> []" using Some FindLanguageMarker_not_Nil[of z] by auto
        then show ?thesis using Some Cons by simp
      qed
    qed
    ultimately show ?thesis using Some by (simp add: is_marker_def unlines_def)
  qed
qed

lemma split_loop_dom:
  "snd (snd (split_loop ys (cur, before, m))) L = Some b \<Longrightarrow> m L = None \<Longrightarrow> cur = [] \<or> cur \<noteq> L \<Longrightarrow>
     \<exists>y\<in>set ys. FindLanguageMarker y = Some L"
proof (induction ys arbitrary: cur before m)
  case Nil
  then show ?case by simp
next
  case (Cons y ys)
  show ?case
  proof (cases "FindLanguageMarker y = Some L")
    case True then show ?thesis by simp
  next
    case False
    show ?thesis
    proof (cases "FindLanguageMarker y")
      case None
      show ?thesis
      proof (cases "cur = []")
        case True
        with None Cons.prems have "snd (snd (split_loop ys ([], before @ y @ ''\<newline>'', m))) L = Some b" by simp
        from Cons.IH[OF this Cons.prems(2)] show ?thesis by simp
      next
        case F: False
        with Cons.prems have cL: "cur \<noteq> L" by auto
        from None F Cons.prems have "snd (snd (split_loop ys (cur, before, m(cur \<mapsto> (case m cur of None \<Rightarrow> [] | Some b \<Rightarrow> b) @ y @ ''\<newline>'')))) L = Some b" by simp
        from Cons.IH[OF this] cL Cons.prems(2) show ?thesis by simp
      qed
    next
      case (Some l)
      with False have lL: "l \<noteq> L" by simp
      have l: "l \<noteq> []" using Some FindLanguageMarker_not_Nil[of y] by auto
      from Some l Cons.prems have "snd (snd (split_loop ys (l, before, m(l \<mapsto> [], l \<mapsto> y @ ''\<newline>'')))) L = Some b" by simp
      from Cons.IH[OF this] lL Cons.prems(2) show ?thesis by simp
    qed
  qed
qed

lemmas marker_eval = SplitOnLanguageMarkers_def Split_def FindLanguageMarker_def
  spaces_then_rest_def is_space_def unlines_def is_marker_def

lemma SplitOnLanguageMarkers_loop:
  "SplitOnLanguageMarkers text =
     (fst (snd (split_loop (Split text) ([], [], Map.empty))),
      snd (snd (split_loop (Split text) ([], [], Map.empty))))"
  by (simp add: SplitOnLanguageMarkers_def split: prod.splits)

text \<open>The preamble is made of the lines before the first marker line.\<close>

lemma SplitOnLanguageMarkers_preamble:
  "fst (SplitOnLanguageMarkers text) = unlines (takeWhile (\<lambda>l. \<not> is_marker l) (Split text))"
  using split_loop_before[of "Split text" "[]" Map.empty]
  by (simp add: SplitOnLanguageMarkers_loop)

text \<open>
  The bucket of a language is the last marker line that names it, followed by the lines
  after that marker up to the next marker: what an earlier marker of the same language had
  gathered is discarded.
\<close>

lemma SplitOnLanguageMarkers_last_marker:
  assumes "Split text = pre @ mk # post"
    and "FindLanguageMarker mk = Some L"
    and "\<forall>y\<in>set post. FindLanguageMarker y \<noteq> Some L"
  shows "snd (SplitOnLanguageMarkers text) L =
           Some (unlines (mk # takeWhile (\<lambda>l. \<not> is_marker l) post))"
proof -
  have "snd (snd (split_loop (pre @ mk # post) ([], [], Map.empty))) L =
          Some (unlines (mk # takeWhile (\<lambda>l. \<not> is_marker l) post))"
    by (rule split_loop_last_marker[OF assms(2,3)])
  then show ?thesis using assms(1) by (simp add: SplitOnLanguageMarkers_loop)
qed

text \<open>
  C3. The text with the markers \<open>:: en\<close> and \<open>:: fr\<close>, their content and no
  preamble gives an empty preamble and exactly two buckets, as the claim says; but the
  marker lines are not consumed: the bucket of \<open>en\<close> is the line \<open>:: en\<close>
  followed by \<open>Hello\<close>, and the bucket of \<open>fr\<close> is the line \<open>:: fr\<close>
  followed by \<open>Bonjour\<close>. The parser of one language is documented as taking the
  output of the splitter as markdown without language markers, so the loop misses a
  \<open>continue\<close> after the match of a marker.
\<close>

theorem SplitOnLanguageMarkers_keeps_marker_line:
  "fst (SplitOnLanguageMarkers '':: en\<newline>Hello\<newline>:: fr\<newline>Bonjour'') = [] \<and>
   dom (snd (SplitOnLanguageMarkers '':: en\<newline>Hello\<newline>:: fr\<newline>Bonjour'')) = {''en'', ''fr''} \<and>
   snd (SplitOnLanguageMarkers '':: en\<newline>Hello\<newline>:: fr\<newline>Bonjour'') ''en'' =
     Some '':: en\<newline>Hello\<newline>'' \<and>
   snd (SplitOnLanguageMarkers '':: en\<newline>Hello\<newline>:: fr\<newline>Bonjour'') ''fr'' =
     Some '':: fr\<newline>Bonjour\<newline>'' \<and>
   Split '':: en\<newline>Hello\<newline>'' = ['':: en'', ''Hello'', []] \<and>
   is_marker '':: en'' \<and> is_marker '':: fr''"
  by (simp add: marker_eval insert_commute)

text \<open>
  C10. With two markers \<open>:: en\<close>, the line \<open>old\<close> gathered after the first one
  is discarded, as the claim says; but the bucket of \<open>en\<close> is not only the line
  \<open>new\<close> that comes after the last marker: the marker line \<open>:: en\<close> itself is
  in it, appended to the bucket that the match has just emptied.
\<close>

theorem SplitOnLanguageMarkers_repeated_keeps_marker:
  "snd (SplitOnLanguageMarkers '':: en\<newline>old\<newline>:: en\<newline>new'') ''en'' = Some '':: en\<newline>new\<newline>'' \<and>
   snd (SplitOnLanguageMarkers '':: en\<newline>old\<newline>:: en\<newline>new'') ''en'' \<noteq> Some (unlines [''new'']) \<and>
   is_marker '':: en''"
  by (simp add: marker_eval)

section \<open>Properties of the header splitter\<close>

lemma expand_tabs_plain: "line = [] \<or> hd line \<noteq> CHR 0x09 \<Longrightarrow> expand_tabs line = line"
  by (cases line) auto

lemma expand_tabs_leading: "expand_tabs (CHR 0x09 # rest) = ''    '' @ rest"
  by simp

lemma header_loop_lines:
  "fst (snd (header_loop ls (inH, raw, md))) =
     raw @ unlines (fst (header_body_lines (map expand_tabs ls) inH)) \<and>
   snd (snd (header_loop ls (inH, raw, md))) =
     md @ unlines (snd (header_body_lines (map expand_tabs ls) inH))"
proof (induction ls arbitrary: inH raw md)
  case Nil
  show ?case by (simp add: unlines_def)
next
  case (Cons l ls)
  show ?case
  proof (cases "is_header_separator (expand_tabs l)")
    case True
    then show ?thesis
      using Cons.IH[of "\<not> inH" raw md] by simp
  next
    case False
    then show ?thesis
      using Cons.IH[of inH "raw @ expand_tabs l @ ''\<newline>''" md]
        Cons.IH[of inH raw "md @ expand_tabs l @ ''\<newline>''"]
      by (cases inH) (simp_all add: unlines_def split: prod.splits)
  qed
qed

lemma ParseYAMLHeader_loop:
  "ParseYAMLHeader decode text =
     (decode (fst (snd (header_loop (Split text) (False, [], [])))),
      snd (snd (header_loop (Split text) (False, [], []))))"
  by (simp add: ParseYAMLHeader_def split: prod.splits)

text \<open>
  A tab that is not at the start of its line is not expanded: the body of the text
  \<open>a<tab>b\<close> still holds the tab.
\<close>

theorem ParseYAMLHeader_keeps_inner_tab:
  "snd (ParseYAMLHeader (\<lambda>yaml. yaml) (''a'' @ [CHR 0x09] @ ''b'')) = ''a'' @ [CHR 0x09] @ ''b\<newline>'' \<and>
   CHR 0x09 \<in> set (snd (ParseYAMLHeader (\<lambda>yaml. yaml) (''a'' @ [CHR 0x09] @ ''b'')))"
  by (simp add: ParseYAMLHeader_def Split_def is_header_separator_def Trim_dashes_def Count_dashes_def)

text \<open>
  C8, as the code has it. A line that does not start with a tab is left as it is; a tab at
  the start of a line, followed by something else than a tab, becomes four spaces; and the
  header and the body are split from the lines so expanded: separator lines toggle the
  header and are dropped, the other lines go to the header text or to the body text.
\<close>

theorem ParseYAMLHeader_leading_tab:
  "(\<forall>line. (line = [] \<or> hd line \<noteq> CHR 0x09) \<longrightarrow> expand_tabs line = line) \<and>
   (\<forall>rest. (rest = [] \<or> hd rest \<noteq> CHR 0x09) \<longrightarrow> expand_tabs (CHR 0x09 # rest) = ''    '' @ rest) \<and>
   ParseYAMLHeader decode text =
     (decode (unlines (fst (header_body_lines (map expand_tabs (Split text)) False))),
      unlines (snd (header_body_lines (map expand_tabs (Split text)) False)))"
proof (intro conjI allI impI)
  show "ParseYAMLHeader decode text =
     (decode (unlines (fst (header_body_lines (map expand_tabs (Split text)) False))),
      unlines (snd (header_body_lines (map expand_tabs (Split text)) False)))"
    using header_loop_lines[of "Split text" False "[]" "[]"]
    by (simp add: ParseYAMLHeader_loop)
next
  fix line :: string
  assume "line = [] \<or> hd line \<noteq> CHR 0x09"
  then show "expand_tabs line = line" by (rule expand_tabs_plain)
next
  fix rest :: string
  show "expand_tabs (CHR 0x09 # rest) = ''    '' @ rest" by simp
qed

theorem ParseYAMLHeader_leading_tab_witness:
  "expand_tabs ''a: b'' = ''a: b'' \<and>
   expand_tabs (CHR 0x09 # ''- x'') = ''    - x'' \<and>
   ParseYAMLHeader (\<lambda>yaml. yaml) (''---\<newline>tags:\<newline>'' @ [CHR 0x09] @ ''- x\<newline>---\<newline>Body'') =
     (''tags:\<newline>    - x\<newline>'', ''Body\<newline>'')"
proof -
  note t = ParseYAMLHeader_leading_tab
    [of "\<lambda>yaml. yaml" "''---\<newline>tags:\<newline>'' @ [CHR 0x09] @ ''- x\<newline>---\<newline>Body''"]
  have "expand_tabs ''a: b'' = ''a: b''"
    using t[THEN conjunct1, THEN spec, of "''a: b''"] by simp
  moreover have "expand_tabs (CHR 0x09 # ''- x'') = ''    - x''"
    using t[THEN conjunct2, THEN conjunct1, THEN spec, of "''- x''"] by simp
  moreover have "ParseYAMLHeader (\<lambda>yaml. yaml)
      (''---\<newline>tags:\<newline>'' @ [CHR 0x09] @ ''- x\<newline>---\<newline>Body'') =
     (''tags:\<newline>    - x\<newline>'', ''Body\<newline>'')"
    unfolding t[THEN conjunct2, THEN conjunct2]
    by (simp add: Split_def is_header_separator_def Trim_dashes_def Count_dashes_def unlines_def)
  ultimately show ?thesis by blast
qed


section \<open>Properties of the media analysis\<close>

lemma analyze_list_append:
  "analyze_list lib ctx dir (xs @ ys) st =
     (case analyze_list lib ctx dir xs st of
        Inl err \<Rightarrow> Inl err
      | Inr (ms, st') \<Rightarrow>
          (case analyze_list lib ctx dir ys st' of
             Inl err \<Rightarrow> Inl err
           | Inr (ms', st'') \<Rightarrow> Inr (ms @ ms', st'')))"
  by (induction xs arbitrary: st) (auto split: sum.splits prod.splits)

lemma analyze_list_length:
  "analyze_list lib ctx dir ds st = Inr (ms, st') \<Longrightarrow> length ms = length ds"
  by (induction ds arbitrary: st ms) (auto split: sum.splits prod.splits)

text \<open>A media stored under a file name is never replaced.\<close>

lemma analyze_one_keeps:
  "analyze_one lib ctx dir d (bs, tr) = Inr (m, bs', tr') \<Longrightarrow> bs f = Some a \<Longrightarrow> bs' f = Some a"
  by (auto simp: analyze_one_def Let_def split: if_splits option.splits sum.splits)

lemma analyze_list_keeps:
  "analyze_list lib ctx dir ds (bs, tr) = Inr (ms, bs', tr') \<Longrightarrow> bs f = Some a \<Longrightarrow> bs' f = Some a"
proof (induction ds arbitrary: bs tr ms)
  case Nil
  then show ?case by simp
next
  case (Cons d ds)
  from Cons.prems(1) obtain m bs1 tr1 ms1 where
    one: "analyze_one lib ctx dir d (bs, tr) = Inr (m, bs1, tr1)" and
    rest: "analyze_list lib ctx dir ds (bs1, tr1) = Inr (ms1, bs', tr')"
    by (auto split: sum.splits prod.splits)
  from analyze_one_keeps[OF one Cons.prems(2)] have "bs1 f = Some a" .
  from Cons.IH[OF rest this] show ?case .
qed

text \<open>Declarations of other files, and URLs, leave the entry of a file name alone.\<close>

lemma analyze_one_other:
  "analyze_one lib ctx dir d (bs, tr) = Inr (m, bs', tr') \<Longrightarrow>
     isValidURL lib (Source d) \<or> media_filename lib dir d \<noteq> f \<Longrightarrow> bs' f = bs f"
  by (auto simp: analyze_one_def Let_def split: if_splits option.splits sum.splits)

lemma analyze_list_other:
  "analyze_list lib ctx dir ds (bs, tr) = Inr (ms, bs', tr') \<Longrightarrow>
     \<forall>d\<in>set ds. isValidURL lib (Source d) \<or> media_filename lib dir d \<noteq> f \<Longrightarrow> bs' f = bs f"
proof (induction ds arbitrary: bs tr ms)
  case Nil
  then show ?case by simp
next
  case (Cons d ds)
  from Cons.prems(1) obtain m bs1 tr1 ms1 where
    one: "analyze_one lib ctx dir d (bs, tr) = Inr (m, bs1, tr1)" and
    rest: "analyze_list lib ctx dir ds (bs1, tr1) = Inr (ms1, bs', tr')"
    by (auto split: sum.splits prod.splits)
  have "bs1 f = bs f" using analyze_one_other[OF one] Cons.prems(2) by simp
  moreover have "bs' f = bs1 f" using Cons.IH[OF rest] Cons.prems(2) by simp
  ultimately show ?case by simp
qed

text \<open>Every file name handed to the analysis has an entry, and none is handed twice.\<close>

lemma analyze_one_distinct:
  "analyze_one lib ctx dir d (bs, tr) = Inr (m, bs', tr') \<Longrightarrow>
     distinct tr \<and> set tr \<subseteq> dom bs \<Longrightarrow> distinct tr' \<and> set tr' \<subseteq> dom bs'"
  by (auto simp: analyze_one_def Let_def split: if_splits option.splits sum.splits)

lemma analyze_list_distinct:
  "analyze_list lib ctx dir ds (bs, tr) = Inr (ms, bs', tr') \<Longrightarrow>
     distinct tr \<and> set tr \<subseteq> dom bs \<Longrightarrow> distinct tr' \<and> set tr' \<subseteq> dom bs'"
proof (induction ds arbitrary: bs tr ms)
  case Nil
  then show ?case by simp
next
  case (Cons d ds)
  from Cons.prems(1) obtain m bs1 tr1 ms1 where
    one: "analyze_one lib ctx dir d (bs, tr) = Inr (m, bs1, tr1)" and
    rest: "analyze_list lib ctx dir ds (bs1, tr1) = Inr (ms1, bs', tr')"
    by (auto split: sum.splits prod.splits)
  from analyze_one_distinct[OF one Cons.prems(2)] Cons.IH[OF rest] show ?case by blast
qed

text \<open>The two ways a declaration of a local file is handled.\<close>

lemma analyze_one_first:
  assumes "analyze_one lib ctx dir d (bs, tr) = Inr (m, bs', tr')"
    and "\<not> isValidURL lib (Source d)" and "bs (media_filename lib dir d) = None"
  shows "AnalyzeMediaFile lib ctx (media_filename lib dir d) d = Inr m \<and>
         bs' (media_filename lib dir d) = Some m"
  using assms by (auto simp: analyze_one_def Let_def split: sum.splits)

lemma analyze_one_again:
  assumes "\<not> isValidURL lib (Source d)" and "bs (media_filename lib dir d) = Some a"
  shows "analyze_one lib ctx dir d (bs, tr) =
           Inr (a\<lparr>Media_Alt := Alt d, Media_Attributes := Attributes d, Media_Title := Title d\<rparr>, bs, tr)"
  using assms by (simp add: analyze_one_def Let_def)

text \<open>The loops of the source in terms of the run over one list.\<close>

lemma mediae_loop_list:
  "am language = Some acc \<Longrightarrow>
     mediae_loop lib ctx dir language ds (am, st) =
       (case analyze_list lib ctx dir ds st of
          Inl err \<Rightarrow> Inl err
        | Inr (ms, st') \<Rightarrow> Inr (am(language \<mapsto> acc @ ms), st'))"
proof (induction ds arbitrary: am acc st)
  case Nil
  then show ?case by (simp add: fun_upd_idem)
next
  case (Cons d ds)
  obtain bs tr where st: "st = (bs, tr)" by (cases st)
  show ?case
  proof (cases "analyze_one lib ctx dir d (bs, tr)")
    case (Inl err)
    then show ?thesis by (simp add: st)
  next
    case (Inr r)
    obtain m bs1 tr1 where r: "r = (m, bs1, tr1)" by (cases r)
    have "mediae_loop lib ctx dir language ds (am(language \<mapsto> acc @ [m]), (bs1, tr1)) =
          (case analyze_list lib ctx dir ds (bs1, tr1) of
             Inl err \<Rightarrow> Inl err
           | Inr (ms, st') \<Rightarrow> Inr ((am(language \<mapsto> acc @ [m]))(language \<mapsto> (acc @ [m]) @ ms), st'))"
      by (rule Cons.IH) simp
    then show ?thesis using Inr r Cons.prems
      by (auto simp: st fun_eq_iff split: sum.splits prod.splits)
  qed
qed

lemma languages_loop_append:
  "languages_loop lib ctx dir (xs @ ys) st =
     (case languages_loop lib ctx dir xs st of
        Inl err \<Rightarrow> Inl err
      | Inr st' \<Rightarrow> languages_loop lib ctx dir ys st')"
proof (induction xs arbitrary: st)
  case Nil
  show ?case by simp
next
  case (Cons x xs)
  obtain l ds where x: "x = (l, ds)" by (cases x)
  obtain am bs tr where st: "st = (am, bs, tr)" by (cases st)
  show ?case using Cons.IH by (simp add: x st split: sum.splits)
qed

lemma languages_loop_flat:
  "languages_loop lib ctx dir langs (am, st) = Inr (am', st') \<Longrightarrow>
     \<exists>ms. analyze_list lib ctx dir (concat (map snd langs)) st = Inr (ms, st')"
proof (induction langs arbitrary: am st)
  case Nil
  then show ?case by simp
next
  case (Cons x langs)
  obtain l ds where x: "x = (l, ds)" by (cases x)
  obtain bs tr where st: "st = (bs, tr)" by (cases st)
  have ml: "mediae_loop lib ctx dir l ds (am(l \<mapsto> []), st) =
          (case analyze_list lib ctx dir ds st of
             Inl err \<Rightarrow> Inl err
           | Inr (ms, st') \<Rightarrow> Inr ((am(l \<mapsto> []))(l \<mapsto> [] @ ms), st'))"
    by (rule mediae_loop_list) simp
  from Cons.prems obtain ms1 st1 where
    a1: "analyze_list lib ctx dir ds st = Inr (ms1, st1)" and
    l1: "languages_loop lib ctx dir langs (am(l \<mapsto> ms1), st1) = Inr (am', st')"
    using ml by (auto simp: x st split: sum.splits prod.splits)
  from Cons.IH[OF l1] obtain ms2 where
    "analyze_list lib ctx dir (concat (map snd langs)) st1 = Inr (ms2, st')" by blast
  with a1 show ?case by (simp add: x analyze_list_append)
qed

lemma languages_loop_other:
  "languages_loop lib ctx dir langs (am, st) = Inr (am', st') \<Longrightarrow>
     language \<notin> fst ` set langs \<Longrightarrow> am' language = am language"
proof (induction langs arbitrary: am st)
  case Nil
  then show ?case by simp
next
  case (Cons x langs)
  obtain l ds where x: "x = (l, ds)" by (cases x)
  obtain bs tr where st: "st = (bs, tr)" by (cases st)
  have ml: "mediae_loop lib ctx dir l ds (am(l \<mapsto> []), st) =
          (case analyze_list lib ctx dir ds st of
             Inl err \<Rightarrow> Inl err
           | Inr (ms, st') \<Rightarrow> Inr ((am(l \<mapsto> []))(l \<mapsto> [] @ ms), st'))"
    by (rule mediae_loop_list) simp
  from Cons.prems(1) obtain ms1 st1 where
    l1: "languages_loop lib ctx dir langs (am(l \<mapsto> ms1), st1) = Inr (am', st')"
    using ml by (auto simp: x st split: sum.splits prod.splits)
  from Cons.prems(2) have "language \<noteq> l" and "language \<notin> fst ` set langs" by (auto simp: x)
  with Cons.IH[OF l1] show ?case by simp
qed

lemma languages_loop_language:
  assumes "languages_loop lib ctx dir (pre @ (language, ds) # post) (am, st) = Inr (am', st')"
    and "language \<notin> fst ` set post"
  shows "\<exists>ms0 st1 ms st2.
           analyze_list lib ctx dir (concat (map snd pre)) st = Inr (ms0, st1) \<and>
           analyze_list lib ctx dir ds st1 = Inr (ms, st2) \<and> am' language = Some ms"
proof -
  from assms(1) obtain am1 st1 where
    p: "languages_loop lib ctx dir pre (am, st) = Inr (am1, st1)" and
    q: "languages_loop lib ctx dir ((language, ds) # post) (am1, st1) = Inr (am', st')"
    by (auto simp: languages_loop_append split: sum.splits)
  from languages_loop_flat[OF p] obtain ms0 where
    f: "analyze_list lib ctx dir (concat (map snd pre)) st = Inr (ms0, st1)" by blast
  obtain bs tr where st1: "st1 = (bs, tr)" by (cases st1)
  have ml: "mediae_loop lib ctx dir language ds (am1(language \<mapsto> []), st1) =
          (case analyze_list lib ctx dir ds st1 of
             Inl err \<Rightarrow> Inl err
           | Inr (ms, st') \<Rightarrow> Inr ((am1(language \<mapsto> []))(language \<mapsto> [] @ ms), st'))"
    by (rule mediae_loop_list) simp
  from q obtain ms st2 where
    a: "analyze_list lib ctx dir ds st1 = Inr (ms, st2)" and
    r: "languages_loop lib ctx dir post (am1(language \<mapsto> ms), st2) = Inr (am', st')"
    using ml by (auto simp: st1 split: sum.splits prod.splits)
  from languages_loop_other[OF r assms(2)] have "am' language = Some ms" by simp
  with f a show ?thesis by blast
qed

text \<open>
  C7. A declaration \<open>d2\<close> of a local file comes after a declaration \<open>d1\<close> of the same
  file, in the same language or in a language read before, and \<open>d1\<close> is the first
  declaration of that file. Then the analysis of \<open>d1\<close> succeeded with some media
  \<open>m1\<close>, and the media of \<open>d2\<close> is \<open>m1\<close> with the alt text, the title and the
  attributes of \<open>d2\<close>: content type, size, dimensions, duration and sound flag are those
  of \<open>m1\<close>. No file name is handed to the analysis twice.
\<close>

theorem AnalyzeAllMediae_duplicate_source:
  fixes lib :: "'d libraries" and ctx :: MediaContext and currentDirectory :: string
  defines "dir \<equiv> media_directory lib ctx currentDirectory"
  assumes run: "AnalyzeAllMediae_run lib ctx (pre @ (language, ds1 @ d2 # ds2) # post) currentDirectory =
                  Inr (result, analysed)"
    and keys: "language \<notin> fst ` set post"
    and earlier: "concat (map snd pre) @ ds1 = xs @ d1 # ys"
    and first: "\<forall>x\<in>set xs. isValidURL lib (Source x) \<or> media_filename lib dir x \<noteq> media_filename lib dir d1"
    and local1: "\<not> isValidURL lib (Source d1)"
    and local2: "\<not> isValidURL lib (Source d2)"
    and same: "media_filename lib dir d2 = media_filename lib dir d1"
  shows "\<exists>ms m1.
           AnalyzeAllMediae lib ctx (pre @ (language, ds1 @ d2 # ds2) # post) currentDirectory = Inr result \<and>
           result language = Some ms \<and> length ms = length (ds1 @ d2 # ds2) \<and>
           AnalyzeMediaFile lib ctx (media_filename lib dir d1) d1 = Inr m1 \<and>
           ms ! length ds1 =
             m1\<lparr>Media_Alt := Alt d2, Media_Attributes := Attributes d2, Media_Title := Title d2\<rparr> \<and>
           ContentType (ms ! length ds1) = ContentType m1 \<and>
           Size (ms ! length ds1) = Size m1 \<and>
           Dimensions (ms ! length ds1) = Dimensions m1 \<and>
           Duration (ms ! length ds1) = Duration m1 \<and>
           HasSound (ms ! length ds1) = HasSound m1 \<and>
           Media_Alt (ms ! length ds1) = Alt d2 \<and>
           Media_Title (ms ! length ds1) = Title d2 \<and>
           Media_Attributes (ms ! length ds1) = Attributes d2 \<and>
           distinct analysed"
proof -
  let ?f = "media_filename lib dir d1"
  let ?st0 = "(Map.empty :: string \<rightharpoonup> 'd Media, [] :: string list)"
  from run obtain bsN where
    loop: "languages_loop lib ctx dir (pre @ (language, ds1 @ d2 # ds2) # post) (Map.empty, ?st0) =
             Inr (result, bsN, analysed)"
    by (auto simp: AnalyzeAllMediae_run_def dir_def split: sum.splits prod.splits)
  from run have all: "AnalyzeAllMediae lib ctx (pre @ (language, ds1 @ d2 # ds2) # post) currentDirectory = Inr result"
    by (simp add: AnalyzeAllMediae_def)
  \<comment> \<open>no file name is analysed twice\<close>
  from languages_loop_flat[OF loop] obtain msAll where
    flat: "analyze_list lib ctx dir (concat (map snd (pre @ (language, ds1 @ d2 # ds2) # post))) ?st0 =
             Inr (msAll, bsN, analysed)" by blast
  from analyze_list_distinct[OF flat] have dist: "distinct analysed" by simp
  \<comment> \<open>the list of the language\<close>
  from languages_loop_language[OF loop keys] obtain ms0 st1 ms st2 where
    p: "analyze_list lib ctx dir (concat (map snd pre)) ?st0 = Inr (ms0, st1)" and
    l: "analyze_list lib ctx dir (ds1 @ d2 # ds2) st1 = Inr (ms, st2)" and
    res: "result language = Some ms" by blast
  from l obtain ms1 st1' m2 st1'' ms2 where
    l1: "analyze_list lib ctx dir ds1 st1 = Inr (ms1, st1')" and
    l2: "analyze_one lib ctx dir d2 st1' = Inr (m2, st1'')" and
    ms: "ms = ms1 @ m2 # ms2"
    by (auto simp: analyze_list_append split: sum.splits prod.splits)
  have len1: "length ms1 = length ds1" by (rule analyze_list_length[OF l1])
  have nth: "ms ! length ds1 = m2" using ms len1 by (simp add: nth_append)
  \<comment> \<open>everything read before \<open>d2\<close>\<close>
  have "analyze_list lib ctx dir (concat (map snd pre) @ ds1) ?st0 = Inr (ms0 @ ms1, st1')"
    using p l1 by (simp add: analyze_list_append)
  then have before: "analyze_list lib ctx dir (xs @ d1 # ys) ?st0 = Inr (ms0 @ ms1, st1')"
    by (simp add: earlier)
  then obtain msx bsx trx m1 bsd trd msy where
    ax: "analyze_list lib ctx dir xs ?st0 = Inr (msx, bsx, trx)" and
    ad: "analyze_one lib ctx dir d1 (bsx, trx) = Inr (m1, bsd, trd)" and
    ay: "analyze_list lib ctx dir ys (bsd, trd) = Inr (msy, st1')"
    by (auto simp: analyze_list_append split: sum.splits prod.splits)
  have "bsx ?f = Map.empty ?f" using analyze_list_other[OF ax first] .
  then have none: "bsx ?f = None" by simp
  from analyze_one_first[OF ad local1 none] have
    m1: "AnalyzeMediaFile lib ctx ?f d1 = Inr m1" and stored: "bsd ?f = Some m1" by simp_all
  obtain bs1 tr1 where st1': "st1' = (bs1, tr1)" by (cases st1')
  from analyze_list_keeps[OF ay[unfolded st1'] stored] have "bs1 ?f = Some m1" .
  then have again: "bs1 (media_filename lib dir d2) = Some m1" by (simp add: same)
  have "analyze_one lib ctx dir d2 (bs1, tr1) =
          Inr (m1\<lparr>Media_Alt := Alt d2, Media_Attributes := Attributes d2, Media_Title := Title d2\<rparr>, bs1, tr1)"
    using local2 again by (rule analyze_one_again)
  with l2 have
    m2: "m2 = m1\<lparr>Media_Alt := Alt d2, Media_Attributes := Attributes d2, Media_Title := Title d2\<rparr>"
    by (simp add: st1')
  have "length ms = length (ds1 @ d2 # ds2)" by (rule analyze_list_length[OF l])
  with all res m1 nth m2 dist show ?thesis by simp
qed

lemmas media_eval = AnalyzeAllMediae_run_def media_directory_def analyze_one_def media_filename_def
  AnalyzeMediaFile_def RelativePathToMedia_def HasPrefix_def online_media_def
  example_libraries_def example_declaration_def Let_def

theorem AnalyzeAllMediae_duplicate_source_witness:
  "\<exists>result analysed ms m1.
     AnalyzeAllMediae_run example_libraries \<lparr>Scattered = False, ScatteredModeFolder = []\<rparr>
       [(''en'', [example_declaration ''first'' ''a.png'']),
        (''fr'', [example_declaration ''second'' ''a.png''])] ''work'' = Inr (result, analysed) \<and>
     result ''fr'' = Some ms \<and>
     AnalyzeMediaFile example_libraries \<lparr>Scattered = False, ScatteredModeFolder = []\<rparr>
       ''work/a.png'' (example_declaration ''first'' ''a.png'') = Inr m1 \<and>
     ms ! 0 = m1\<lparr>Media_Alt := ''second'', Media_Attributes := default_attributes, Media_Title := []\<rparr> \<and>
     Media_Alt m1 = ''first'' \<and> Media_Alt (ms ! 0) = ''second'' \<and>
     ContentType (ms ! 0) = ''image/png'' \<and> Size (ms ! 0) = 10 \<and> Dimensions (ms ! 0) = (4, 3) \<and>
     distinct analysed"
proof -
  let ?ctx = "\<lparr>Scattered = False, ScatteredModeFolder = []\<rparr>"
  let ?d1 = "example_declaration ''first'' ''a.png''"
  let ?d2 = "example_declaration ''second'' ''a.png''"
  have "\<exists>result analysed.
          AnalyzeAllMediae_run example_libraries ?ctx ([(''en'', [?d1])] @ (''fr'', [] @ ?d2 # []) # []) ''work'' =
            Inr (result, analysed)"
    by (simp add: media_eval)
  then obtain result analysed where
    run: "AnalyzeAllMediae_run example_libraries ?ctx ([(''en'', [?d1])] @ (''fr'', [] @ ?d2 # []) # []) ''work'' =
            Inr (result, analysed)" by blast
  have dir: "media_directory example_libraries ?ctx ''work'' = ''work''"
    by (simp add: media_directory_def)
  have f1: "media_filename example_libraries ''work'' ?d1 = ''work/a.png''"
    by (simp add: media_eval)
  have f2: "media_filename example_libraries ''work'' ?d2 = ''work/a.png''"
    by (simp add: media_eval)
  have "\<exists>ms m1.
           AnalyzeAllMediae example_libraries ?ctx ([(''en'', [?d1])] @ (''fr'', [] @ ?d2 # []) # []) ''work'' = Inr result \<and>
           result ''fr'' = Some ms \<and> length ms = length ([] @ ?d2 # []) \<and>
           AnalyzeMediaFile example_libraries ?ctx
             (media_filename example_libraries (media_directory example_libraries ?ctx ''work'') ?d1) ?d1 = Inr m1 \<and>
           ms ! length ([] :: MediaEmbedDeclaration list) =
             m1\<lparr>Media_Alt := Alt ?d2, Media_Attributes := Attributes ?d2, Media_Title := Title ?d2\<rparr> \<and>
           ContentType (ms ! length ([] :: MediaEmbedDeclaration list)) = ContentType m1 \<and>
           Size (ms ! length ([] :: MediaEmbedDeclaration list)) = Size m1 \<and>
           Dimensions (ms ! length ([] :: MediaEmbedDeclaration list)) = Dimensions m1 \<and>
           Duration (ms ! length ([] :: MediaEmbedDeclaration list)) = Duration m1 \<and>
           HasSound (ms ! length ([] :: MediaEmbedDeclaration list)) = HasSound m1 \<and>
           Media_Alt (ms ! length ([] :: MediaEmbedDeclaration list)) = Alt ?d2 \<and>
           Media_Title (ms ! length ([] :: MediaEmbedDeclaration list)) = Title ?d2 \<and>
           Media_Attributes (ms ! length ([] :: MediaEmbedDeclaration list)) = Attributes ?d2 \<and>
           distinct analysed"
  proof (rule AnalyzeAllMediae_duplicate_source[OF run, where xs = "[]" and ys = "[]" and ?d1.0 = ?d1])
    show "''fr'' \<notin> fst ` set []" by simp
    show "concat (map snd [(''en'', [?d1])]) @ [] = [] @ ?d1 # []" by simp
    show "\<forall>x\<in>set []. isValidURL example_libraries (Source x) \<or>
            media_filename example_libraries (media_directory example_libraries ?ctx ''work'') x \<noteq>
            media_filename example_libraries (media_directory example_libraries ?ctx ''work'') ?d1"
      by simp
    show "\<not> isValidURL example_libraries (Source ?d1)" by (simp add: media_eval)
    show "\<not> isValidURL example_libraries (Source ?d2)" by (simp add: media_eval)
    show "media_filename example_libraries (media_directory example_libraries ?ctx ''work'') ?d2 =
          media_filename example_libraries (media_directory example_libraries ?ctx ''work'') ?d1"
      by (simp add: dir f1 f2)
  qed
  then obtain ms m1 where
    res: "result ''fr'' = Some ms" and
    m1: "AnalyzeMediaFile example_libraries ?ctx
             (media_filename example_libraries (media_directory example_libraries ?ctx ''work'') ?d1) ?d1 = Inr m1" and
    nth: "ms ! 0 = m1\<lparr>Media_Alt := Alt ?d2, Media_Attributes := Attributes ?d2, Media_Title := Title ?d2\<rparr>" and
    dist: "distinct analysed"
    by auto
  from m1 have m1': "AnalyzeMediaFile example_libraries ?ctx ''work/a.png'' ?d1 = Inr m1"
    by (simp add: dir f1)
  then have facts: "Media_Alt m1 = ''first''" "ContentType m1 = ''image/png''" "Size m1 = 10"
    "Dimensions m1 = (4, 3)"
    by (auto simp: media_eval)
  have d2: "Alt ?d2 = ''second''" "Attributes ?d2 = default_attributes" "Title ?d2 = []"
    by (simp_all add: example_declaration_def)
  from run have run': "AnalyzeAllMediae_run example_libraries ?ctx
       [(''en'', [?d1]), (''fr'', [?d2])] ''work'' = Inr (result, analysed)" by simp
  show ?thesis
    apply (rule exI[of _ result], rule exI[of _ analysed], rule exI[of _ ms], rule exI[of _ m1])
    using run' res m1' nth facts dist d2 by simp
qed


section \<open>Properties of the parser of one language\<close>

lemmas parse_eval = ParseSingleLanguageDescription_def example_markup_def example_tree_def
  p_node_def text_node_def Find_def Contains_def paragraphLikeTagNames_def innerHTML_def
  FindAbbreviationDefinition_def FindLanguageMarker_def spaces_then_rest_def is_space_def
  title_and_footnotes_def assign_def attr_def Let_def

text \<open>
  Whatever \<open>ReplaceAllString\<close> does, the result is the same: the replaced paragraphs
  are computed and then left behind.
\<close>

lemma ParseSingleLanguageDescription_ignores_ReplaceAllString:
  "ParseSingleLanguageDescription (lib\<lparr>ReplaceAllString := f\<rparr>) markdownRaw =
   ParseSingleLanguageDescription lib markdownRaw"
proof -
  have "classify_loop (lib\<lparr>ReplaceAllString := f\<rparr>) n nodes st = classify_loop lib n nodes st"
    for n nodes st
  proof (induction nodes arbitrary: n st)
    case Nil
    show ?case by simp
  next
    case (Cons x xs)
    obtain ps ms ls abbrs ord where st: "st = (ps, ms, ls, abbrs, ord)" by (cases st)
    show ?case unfolding st
      by (simp add: Cons.IH Let_def cong: if_cong option.case_cong prod.case_cong)
  qed
  then show ?thesis by (simp add: ParseSingleLanguageDescription_def Let_def)
qed

lemmas replace_eval = processedParagraphs_def ReplaceAbbreviations_def example_ReplaceAllString_def
  word_boundary_def is_word_char_def HasPrefix_def HasSuffix_def

text \<open>
  C2. The description \<open>Use the API now\<close> with the abbreviation \<open>API\<close>: the paragraph
  returned still reads \<open>Use the API now\<close>, although the replaced paragraph, which the
  function computes and does not return, has the annotation. With two abbreviations,
  \<open>ReplaceAbbreviations\<close> itself keeps only the replacement of the last one.
\<close>

theorem ParseSingleLanguageDescription_keeps_API:
  "paragraphs (ParseSingleLanguageDescription example_markup
       ''Use the API now\<newline>\<newline>*[API]: Application Programming Interface'') =
     [\<lparr>Paragraph_ID = ''x'', Index = 0, Paragraph_Anchor = [], Content = ''<p>Use the API now</p>''\<rparr>] \<and>
   abbreviations (ParseSingleLanguageDescription example_markup
       ''Use the API now\<newline>\<newline>*[API]: Application Programming Interface'') =
     [(''API'', ''Application Programming Interface'')] \<and>
   processedParagraphs example_markup
     [\<lparr>Paragraph_ID = ''x'', Index = 0, Paragraph_Anchor = [], Content = ''<p>Use the API now</p>''\<rparr>]
     [(''API'', ''Application Programming Interface'')] =
     [\<lparr>Paragraph_ID = [], Index = 0, Paragraph_Anchor = [],
       Content = ''<p>Use the <abbr title='' @ [CHR 0x22] @ ''Application Programming Interface'' @
                 [CHR 0x22] @ ''>API</abbr> now</p>''\<rparr>] \<and>
   Content (ReplaceAbbreviations example_markup
     \<lparr>Paragraph_ID = ''x'', Index = 0, Paragraph_Anchor = [], Content = ''<p>Use the API now</p>''\<rparr>
     [(''API'', ''Application Programming Interface''), (''now'', ''at once'')]) =
     ''<p>Use the API <abbr title='' @ [CHR 0x22] @ ''at once'' @ [CHR 0x22] @ ''>now</abbr></p>''"
proof (intro conjI)
  show "paragraphs (ParseSingleLanguageDescription example_markup
       ''Use the API now\<newline>\<newline>*[API]: Application Programming Interface'') =
     [\<lparr>Paragraph_ID = ''x'', Index = 0, Paragraph_Anchor = [], Content = ''<p>Use the API now</p>''\<rparr>]"
    by (simp add: parse_eval)
  show "abbreviations (ParseSingleLanguageDescription example_markup
       ''Use the API now\<newline>\<newline>*[API]: Application Programming Interface'') =
     [(''API'', ''Application Programming Interface'')]"
    by (simp add: parse_eval)
  show "processedParagraphs example_markup
     [\<lparr>Paragraph_ID = ''x'', Index = 0, Paragraph_Anchor = [], Content = ''<p>Use the API now</p>''\<rparr>]
     [(''API'', ''Application Programming Interface'')] =
     [\<lparr>Paragraph_ID = [], Index = 0, Paragraph_Anchor = [],
       Content = ''<p>Use the <abbr title='' @ [CHR 0x22] @ ''Application Programming Interface'' @
                 [CHR 0x22] @ ''>API</abbr> now</p>''\<rparr>]"
    by (simp add: replace_eval example_markup_def)
  show "Content (ReplaceAbbreviations example_markup
     \<lparr>Paragraph_ID = ''x'', Index = 0, Paragraph_Anchor = [], Content = ''<p>Use the API now</p>''\<rparr>
     [(''API'', ''Application Programming Interface''), (''now'', ''at once'')]) =
     ''<p>Use the API <abbr title='' @ [CHR 0x22] @ ''at once'' @ [CHR 0x22] @ ''>now</abbr></p>''"
    by (simp add: replace_eval example_markup_def)
qed


section \<open>Properties of the build\<close>

lemmas build_eval = BuildSome_def PrepareBuild_def load_previous_def os_ReadFile_def os_Stat_def
  os_WriteFile_def os_Remove_def os_MkdirAll_def mkdir_failure_def AcquireBuildLock_def ReleaseBuildLock_def buildLockFilepath_def
  ComputeProgressTotal_def description_path_def Build_def WriteDatabase_def WriteBuildMetadata_def
  add_log_def println_def no_work_def no_metadata_def entry_def assign_def
  ContentBlockByID_def extract_colors_def
  example_system_def example_flags_def example_config_def example_world_def
  example_description_def example_declared_layout_def ResolveLayout_spec_def is_dangling_def
  EmptyLayoutCell_def describe_layout_error_def Let_def

subsection \<open>The lock\<close>

lemma load_previous_files: "files (snd (load_previous sys outputFilename world)) = files world"
  by (simp add: load_previous_def add_log_def split: sum.splits prod.splits)

lemma os_MkdirAll_files: "files (snd (os_MkdirAll sys name world)) = files world"
  by (simp add: os_MkdirAll_def split: option.splits)

lemma mkdir_failure_files:
  "files world' = files world \<Longrightarrow> mkdir_failure sys world' name = mkdir_failure sys world name"
  by (simp add: mkdir_failure_def)

lemma os_Stat_files: "files world' = files world \<Longrightarrow> os_Stat sys world' name = os_Stat sys world name"
  by (cases "files world name") (simp_all add: os_Stat_def)

text \<open>What \<open>PrepareBuild\<close> returns when the lock file is there.\<close>

lemma PrepareBuild_locked:
  assumes "os_Stat sys world (buildLockFilepath sys outputFilename) = Exists"
  shows "files (snd (PrepareBuild sys databaseDirectory outputFilename flags config world)) = files world"
    and "fst (PrepareBuild sys databaseDirectory outputFilename flags config world) \<noteq> Ok previous"
    and "\<not> Silent flags \<and> spinner_error sys = Some err \<Longrightarrow>
         fst (PrepareBuild sys databaseDirectory outputFilename flags config world) = Panicked err"
    and "Silent flags \<or> spinner_error sys = None \<Longrightarrow>
         mkdir_failure sys world (Media_At config) = Some err \<Longrightarrow>
         fst (PrepareBuild sys databaseDirectory outputFilename flags config world) =
           Failed (''while creating the media output directory: '' @ err)"
    and "Silent flags \<or> spinner_error sys = None \<Longrightarrow>
         mkdir_failure sys world (Media_At config) = None \<Longrightarrow>
         fst (PrepareBuild sys databaseDirectory outputFilename flags config world) =
           Failed (''another ortfo build is in progress (could not acquire build lock): file '' @
                   buildLockFilepath sys outputFilename @ '' exists'')"
proof -
  obtain prev world1 where lp: "load_previous sys outputFilename world = (prev, world1)"
    by (cases "load_previous sys outputFilename world")
  have f1: "files world1 = files world" using load_previous_files[of sys outputFilename world] lp by simp
  define world2 where "world2 =
     (if IsDefault config then
        add_log (LogInfo ''No configuration file found. The default configuration was used.'') world1
      else world1)"
  have f2: "files world2 = files world" using f1 by (simp add: world2_def add_log_def)
  have mf: "mkdir_failure sys world2 (Media_At config) = mkdir_failure sys world (Media_At config)"
    by (rule mkdir_failure_files[OF f2])
  define world3 where "world3 = snd (os_MkdirAll sys (Media_At config) world2)"
  have f3: "files world3 = files world" by (simp add: world3_def os_MkdirAll_files f2)
  have mk: "os_MkdirAll sys (Media_At config) world2 =
              (mkdir_failure sys world (Media_At config), world3)"
    by (simp add: world3_def os_MkdirAll_def mf split: option.splits)
  have st: "os_Stat sys world3 (buildLockFilepath sys outputFilename) = Exists"
    using assms os_Stat_files[OF f3, of sys "buildLockFilepath sys outputFilename"] by simp
  have acq: "AcquireBuildLock sys outputFilename world3 =
               (Some (''file '' @ buildLockFilepath sys outputFilename @ '' exists''), world3)"
    by (simp add: AcquireBuildLock_def st)
  have pb: "PrepareBuild sys databaseDirectory outputFilename flags config world =
     (if \<not> Silent flags \<and> spinner_error sys \<noteq> None then
        (Panicked (case spinner_error sys of Some err \<Rightarrow> err | None \<Rightarrow> []), world1)
      else (case mkdir_failure sys world (Media_At config) of
              Some err \<Rightarrow> (Failed (''while creating the media output directory: '' @ err), world3)
            | None \<Rightarrow>
               (Failed (''another ortfo build is in progress (could not acquire build lock): '' @
                        (''file '' @ buildLockFilepath sys outputFilename @ '' exists'')), world3)))"
    by (simp add: PrepareBuild_def lp world2_def[symmetric] mk acq Let_def split: option.splits)
  show "files (snd (PrepareBuild sys databaseDirectory outputFilename flags config world)) = files world"
    by (simp add: pb f1 f3 split: option.splits)
  show "fst (PrepareBuild sys databaseDirectory outputFilename flags config world) \<noteq> Ok previous"
    by (simp add: pb split: option.splits)
  show "fst (PrepareBuild sys databaseDirectory outputFilename flags config world) = Panicked err"
    if "\<not> Silent flags \<and> spinner_error sys = Some err"
    using that by (simp add: pb)
  show "fst (PrepareBuild sys databaseDirectory outputFilename flags config world) =
           Failed (''while creating the media output directory: '' @ err)"
    if "Silent flags \<or> spinner_error sys = None" "mkdir_failure sys world (Media_At config) = Some err"
    using that by (auto simp: pb)
  show "fst (PrepareBuild sys databaseDirectory outputFilename flags config world) =
           Failed (''another ortfo build is in progress (could not acquire build lock): file '' @
                   buildLockFilepath sys outputFilename @ '' exists'')"
    if "Silent flags \<or> spinner_error sys = None" "mkdir_failure sys world (Media_At config) = None"
    using that by (auto simp: pb)
qed

text \<open>When \<open>PrepareBuild\<close> does not return well, \<open>BuildSome\<close> returns what it returned.\<close>

lemma BuildSome_not_prepared:
  "(\<And>previous. fst (PrepareBuild sys databaseDirectory outputFilename flags config world) \<noteq> Ok previous) \<Longrightarrow>
     snd (BuildSome sys includeWorks databaseDirectory outputFilename flags config world) =
       snd (PrepareBuild sys databaseDirectory outputFilename flags config world) \<and>
     (\<forall>err. fst (PrepareBuild sys databaseDirectory outputFilename flags config world) = Failed err \<longrightarrow>
        fst (BuildSome sys includeWorks databaseDirectory outputFilename flags config world) = Failed err) \<and>
     (\<forall>err. fst (PrepareBuild sys databaseDirectory outputFilename flags config world) = Panicked err \<longrightarrow>
        fst (BuildSome sys includeWorks databaseDirectory outputFilename flags config world) = Panicked err)"
  by (cases "PrepareBuild sys databaseDirectory outputFilename flags config world";
      cases "fst (PrepareBuild sys databaseDirectory outputFilename flags config world)")
     (auto simp: BuildSome_def)

text \<open>The release of the lock: the file is gone, or the failure to remove it is logged.\<close>

lemma ReleaseBuildLock_removes:
  "remove_error sys (buildLockFilepath sys outputFilename) = None \<Longrightarrow>
     files (ReleaseBuildLock sys outputFilename world) (buildLockFilepath sys outputFilename) = None"
  by (simp add: ReleaseBuildLock_def os_Remove_def add_log_def)

lemma ReleaseBuildLock_stuck:
  "remove_error sys (buildLockFilepath sys outputFilename) = Some err \<Longrightarrow>
   files (ReleaseBuildLock sys outputFilename world) (buildLockFilepath sys outputFilename) \<noteq> None \<Longrightarrow>
     last (log (ReleaseBuildLock sys outputFilename world)) =
       LogError (''could not release build lockfile '' @ buildLockFilepath sys outputFilename @ '': '' @ err)"
  by (auto simp: ReleaseBuildLock_def os_Remove_def add_log_def split: if_splits)

text \<open>After the lock is acquired, every way out of \<open>BuildSome\<close> ends with the release.\<close>

lemma BuildSome_prepared:
  "PrepareBuild sys databaseDirectory outputFilename flags config world = (Ok previous, world1) \<Longrightarrow>
     \<exists>world3. snd (BuildSome sys includeWorks databaseDirectory outputFilename flags config world) =
                ReleaseBuildLock sys outputFilename world3"
  by (cases "ComputeProgressTotal sys flags config databaseDirectory world1")
     (auto simp: BuildSome_def split: sum.splits prod.splits)

text \<open>
  A build refused for the lock has already created the media directory: \<open>os.MkdirAll\<close>
  runs before the lock is looked at. No regular file is changed by it.
\<close>

lemma BuildSome_locked_creates_media_directory:
  "directories (example_world [(''./.ortfomk-build-lock'', [])]) = {} \<and>
   directories (snd (BuildSome example_system ''*'' ''db'' ''out.json'' example_flags (example_config ''media'')
          (example_world [(''./.ortfomk-build-lock'', [])]))) = {''media''}"
  by (simp add: build_eval)

text \<open>
  Two runs against the claim. With the lock file present and the media directory
  impossible to create, the build fails, but not with the condition of a build in
  progress. With the lock acquired and a lock file that the system refuses to remove, the
  build ends well and the lock file is still there.
\<close>

theorem BuildSome_locked_other_error:
  "os_Stat example_system (example_world [(''./.ortfomk-build-lock'', [])])
     (buildLockFilepath example_system ''out.json'') = Exists \<and>
   fst (BuildSome example_system ''*'' ''db'' ''out.json'' example_flags (example_config ''/proc/media'')
          (example_world [(''./.ortfomk-build-lock'', [])])) =
     Failed ''while creating the media output directory: permission denied'' \<and>
   fst (PrepareBuild (example_system\<lparr>remove_error := (\<lambda>name. Some ''permission denied'')\<rparr>)
          ''db'' ''out.json'' example_flags (example_config ''media'')
          (example_world [(''db/good/description.md'', ''good text'')])) = Ok [] \<and>
   fst (BuildSome (example_system\<lparr>remove_error := (\<lambda>name. Some ''permission denied'')\<rparr>)
          ''*'' ''db'' ''out.json'' example_flags (example_config ''media'')
          (example_world [(''db/good/description.md'', ''good text'')])) = Ok () \<and>
   files (snd (BuildSome (example_system\<lparr>remove_error := (\<lambda>name. Some ''permission denied'')\<rparr>)
          ''*'' ''db'' ''out.json'' example_flags (example_config ''media'')
          (example_world [(''db/good/description.md'', ''good text'')]))) ''./.ortfomk-build-lock'' = Some []"
  by (simp add: build_eval)

text \<open>
  C6, as the code has it. When the lock file exists, the build fails and the output
  database file is as it was. The failure is the one of a build in progress when the steps
  that come before the lock succeed; when the spinner does not start, the build panics with
  that error, and when the media directory cannot be created, the build returns the error
  of that. When \<open>PrepareBuild\<close> acquired the lock, \<open>BuildSome\<close> ends with the release
  of the lock, whatever the way it returns: the lock file is gone when the system lets it
  be removed, and when the lock file is still there the failure to remove it is the last
  message logged.
\<close>

theorem BuildSome_build_lock:
  "(os_Stat sys world (buildLockFilepath sys outputFilename) = Exists \<longrightarrow>
      files (snd (BuildSome sys includeWorks databaseDirectory outputFilename flags config world))
        outputFilename = files world outputFilename \<and>
      (\<forall>err. \<not> Silent flags \<and> spinner_error sys = Some err \<longrightarrow>
         fst (BuildSome sys includeWorks databaseDirectory outputFilename flags config world) = Panicked err) \<and>
      (Silent flags \<or> spinner_error sys = None \<longrightarrow>
         (\<forall>err. mkdir_failure sys world (Media_At config) = Some err \<longrightarrow>
            fst (BuildSome sys includeWorks databaseDirectory outputFilename flags config world) =
              Failed (''while creating the media output directory: '' @ err)) \<and>
         (mkdir_failure sys world (Media_At config) = None \<longrightarrow>
            fst (BuildSome sys includeWorks databaseDirectory outputFilename flags config world) =
              Failed (''another ortfo build is in progress (could not acquire build lock): file '' @
                      buildLockFilepath sys outputFilename @ '' exists'')))) \<and>
   (\<forall>previous world1.
      PrepareBuild sys databaseDirectory outputFilename flags config world = (Ok previous, world1) \<longrightarrow>
      (\<exists>world3. snd (BuildSome sys includeWorks databaseDirectory outputFilename flags config world) =
                  ReleaseBuildLock sys outputFilename world3) \<and>
      (remove_error sys (buildLockFilepath sys outputFilename) = None \<longrightarrow>
         files (snd (BuildSome sys includeWorks databaseDirectory outputFilename flags config world))
           (buildLockFilepath sys outputFilename) = None) \<and>
      (\<forall>err. remove_error sys (buildLockFilepath sys outputFilename) = Some err \<and>
             files (snd (BuildSome sys includeWorks databaseDirectory outputFilename flags config world))
               (buildLockFilepath sys outputFilename) \<noteq> None \<longrightarrow>
         last (log (snd (BuildSome sys includeWorks databaseDirectory outputFilename flags config world))) =
           LogError (''could not release build lockfile '' @ buildLockFilepath sys outputFilename @
                     '': '' @ err)))"
proof (intro conjI impI allI)
  assume locked: "os_Stat sys world (buildLockFilepath sys outputFilename) = Exists"
  note pb = PrepareBuild_locked[OF locked, where databaseDirectory = databaseDirectory
      and flags = flags and config = config]
  have np: "\<And>previous. fst (PrepareBuild sys databaseDirectory outputFilename flags config world) \<noteq> Ok previous"
    by (rule pb(2))
  note bs = BuildSome_not_prepared[OF np, where includeWorks = includeWorks]
  show "files (snd (BuildSome sys includeWorks databaseDirectory outputFilename flags config world))
        outputFilename = files world outputFilename"
    using bs pb(1) by simp
  show "fst (BuildSome sys includeWorks databaseDirectory outputFilename flags config world) = Panicked err"
    if "\<not> Silent flags \<and> spinner_error sys = Some err" for err
    using pb(3)[OF that] bs by blast
  show "fst (BuildSome sys includeWorks databaseDirectory outputFilename flags config world) =
              Failed (''while creating the media output directory: '' @ err)"
    if "Silent flags \<or> spinner_error sys = None" "mkdir_failure sys world (Media_At config) = Some err"
    for err
    using pb(4)[OF that] bs by blast
  show "fst (BuildSome sys includeWorks databaseDirectory outputFilename flags config world) =
              Failed (''another ortfo build is in progress (could not acquire build lock): file '' @
                      buildLockFilepath sys outputFilename @ '' exists'')"
    if "Silent flags \<or> spinner_error sys = None" "mkdir_failure sys world (Media_At config) = None"
    using pb(5)[OF that] bs by blast
next
  fix previous world1
  assume p: "PrepareBuild sys databaseDirectory outputFilename flags config world = (Ok previous, world1)"
  from BuildSome_prepared[OF p, where includeWorks = includeWorks] obtain world3 where
    w3: "snd (BuildSome sys includeWorks databaseDirectory outputFilename flags config world) =
           ReleaseBuildLock sys outputFilename world3" by blast
  show "\<exists>world3. snd (BuildSome sys includeWorks databaseDirectory outputFilename flags config world) =
                  ReleaseBuildLock sys outputFilename world3"
    using w3 by blast
  show "files (snd (BuildSome sys includeWorks databaseDirectory outputFilename flags config world))
           (buildLockFilepath sys outputFilename) = None"
    if "remove_error sys (buildLockFilepath sys outputFilename) = None"
    using that by (simp add: w3 ReleaseBuildLock_removes)
  show "last (log (snd (BuildSome sys includeWorks databaseDirectory outputFilename flags config world))) =
           LogError (''could not release build lockfile '' @ buildLockFilepath sys outputFilename @
                     '': '' @ err)"
    if "remove_error sys (buildLockFilepath sys outputFilename) = Some err \<and>
        files (snd (BuildSome sys includeWorks databaseDirectory outputFilename flags config world))
          (buildLockFilepath sys outputFilename) \<noteq> None" for err
    using that ReleaseBuildLock_stuck[of sys outputFilename err world3] by (simp add: w3)
qed

theorem BuildSome_build_lock_witness:
  "os_Stat example_system (example_world [(''./.ortfomk-build-lock'', []), (''out.json'', ''old'')])
     (buildLockFilepath example_system ''out.json'') = Exists \<and>
   fst (BuildSome example_system ''*'' ''db'' ''out.json'' example_flags (example_config ''media'')
          (example_world [(''./.ortfomk-build-lock'', []), (''out.json'', ''old'')])) =
     Failed ''another ortfo build is in progress (could not acquire build lock): file ./.ortfomk-build-lock exists'' \<and>
   files (snd (BuildSome example_system ''*'' ''db'' ''out.json'' example_flags (example_config ''media'')
          (example_world [(''./.ortfomk-build-lock'', []), (''out.json'', ''old'')]))) ''out.json'' = Some ''old'' \<and>
   fst (BuildSome example_system ''*'' ''db'' ''out.json'' example_flags (example_config ''/proc/media'')
          (example_world [(''./.ortfomk-build-lock'', []), (''out.json'', ''old'')])) =
     Failed ''while creating the media output directory: permission denied'' \<and>
   fst (BuildSome (example_system\<lparr>spinner_error := Some ''no terminal''\<rparr>) ''*'' ''db'' ''out.json''
          (example_flags\<lparr>Silent := False\<rparr>) (example_config ''media'')
          (example_world [(''./.ortfomk-build-lock'', []), (''out.json'', ''old'')])) =
     Panicked ''no terminal'' \<and>
   fst (PrepareBuild example_system ''db'' ''out.json'' example_flags (example_config ''media'')
          (example_world [(''db/good/description.md'', ''good text'')])) = Ok [] \<and>
   files (snd (PrepareBuild example_system ''db'' ''out.json'' example_flags (example_config ''media'')
          (example_world [(''db/good/description.md'', ''good text'')]))) ''./.ortfomk-build-lock'' = Some [] \<and>
   files (snd (BuildSome example_system ''*'' ''db'' ''out.json'' example_flags (example_config ''media'')
          (example_world [(''db/good/description.md'', ''good text'')]))) ''./.ortfomk-build-lock'' = None \<and>
   last (log (snd (BuildSome (example_system\<lparr>remove_error := (\<lambda>name. Some ''permission denied'')\<rparr>)
          ''*'' ''db'' ''out.json'' example_flags (example_config ''media'')
          (example_world [(''db/good/description.md'', ''good text'')])))) =
     LogError ''could not release build lockfile ./.ortfomk-build-lock: permission denied''"
proof -
  let ?locked = "example_world [(''./.ortfomk-build-lock'', []), (''out.json'', ''old'')]"
  let ?free = "example_world [(''db/good/description.md'', ''good text'')]"
  let ?stuck = "example_system\<lparr>remove_error := (\<lambda>name. Some ''permission denied'')\<rparr>"
  let ?mute = "example_system\<lparr>spinner_error := Some ''no terminal''\<rparr>"
  have lockpath: "buildLockFilepath example_system ''out.json'' = ''./.ortfomk-build-lock''"
    "buildLockFilepath ?stuck ''out.json'' = ''./.ortfomk-build-lock''"
    "buildLockFilepath ?mute ''out.json'' = ''./.ortfomk-build-lock''"
    by (simp_all add: build_eval)
  have ex: "os_Stat example_system ?locked (buildLockFilepath example_system ''out.json'') = Exists"
    by (simp add: build_eval)
  have exm: "os_Stat ?mute ?locked (buildLockFilepath ?mute ''out.json'') = Exists"
    by (simp add: build_eval)
  have quiet: "Silent example_flags \<or> spinner_error example_system = None"
    by (simp add: build_eval)
  have mk_ok: "mkdir_failure example_system ?locked (Media_At (example_config ''media'')) = None"
    by (simp add: build_eval)
  have mk_no: "mkdir_failure example_system ?locked (Media_At (example_config ''/proc/media'')) =
                 Some ''permission denied''"
    by (simp add: build_eval)
  have loud: "\<not> Silent (example_flags\<lparr>Silent := False\<rparr>) \<and> spinner_error ?mute = Some ''no terminal''"
    by simp
  note t1 = BuildSome_build_lock[where sys = example_system and world = ?locked
      and outputFilename = "''out.json''" and includeWorks = "''*''" and databaseDirectory = "''db''"
      and flags = example_flags and config = "example_config ''media''",
      THEN conjunct1, rule_format, OF ex]
  note t2 = BuildSome_build_lock[where sys = example_system and world = ?locked
      and outputFilename = "''out.json''" and includeWorks = "''*''" and databaseDirectory = "''db''"
      and flags = example_flags and config = "example_config ''/proc/media''",
      THEN conjunct1, rule_format, OF ex]
  note t3 = BuildSome_build_lock[where sys = ?mute and world = ?locked
      and outputFilename = "''out.json''" and includeWorks = "''*''" and databaseDirectory = "''db''"
      and flags = "example_flags\<lparr>Silent := False\<rparr>" and config = "example_config ''media''",
      THEN conjunct1, rule_format, OF exm]
  have a: "fst (BuildSome example_system ''*'' ''db'' ''out.json'' example_flags (example_config ''media'') ?locked) =
     Failed ''another ortfo build is in progress (could not acquire build lock): file ./.ortfomk-build-lock exists''"
    using t1[THEN conjunct2, THEN conjunct2, rule_format, OF quiet, THEN conjunct2, rule_format, OF mk_ok]
    by (simp add: lockpath)
  have b: "files (snd (BuildSome example_system ''*'' ''db'' ''out.json'' example_flags (example_config ''media'') ?locked))
             ''out.json'' = Some ''old''"
    using t1[THEN conjunct1] by (simp add: example_world_def)
  have c: "fst (BuildSome example_system ''*'' ''db'' ''out.json'' example_flags (example_config ''/proc/media'') ?locked) =
     Failed ''while creating the media output directory: permission denied''"
    using t2[THEN conjunct2, THEN conjunct2, rule_format, OF quiet, THEN conjunct1, rule_format, OF mk_no]
    by simp
  have d: "fst (BuildSome ?mute ''*'' ''db'' ''out.json'' (example_flags\<lparr>Silent := False\<rparr>)
             (example_config ''media'') ?locked) = Panicked ''no terminal''"
    using t3[THEN conjunct2, THEN conjunct1, rule_format, OF loud] .
  have "\<exists>world1. PrepareBuild example_system ''db'' ''out.json'' example_flags (example_config ''media'') ?free =
          (Ok [], world1) \<and> files world1 ''./.ortfomk-build-lock'' = Some []"
    by (simp add: build_eval)
  then obtain world1 where
    p: "PrepareBuild example_system ''db'' ''out.json'' example_flags (example_config ''media'') ?free = (Ok [], world1)"
    and l: "files world1 ''./.ortfomk-build-lock'' = Some []" by blast
  have rm_ok: "remove_error example_system (buildLockFilepath example_system ''out.json'') = None"
    by (simp add: build_eval)
  have e: "files (snd (BuildSome example_system ''*'' ''db'' ''out.json'' example_flags (example_config ''media'') ?free))
             ''./.ortfomk-build-lock'' = None"
    using BuildSome_build_lock[where sys = example_system and world = ?free
      and outputFilename = "''out.json''" and includeWorks = "''*''" and databaseDirectory = "''db''"
      and flags = example_flags and config = "example_config ''media''",
      THEN conjunct2, rule_format, OF p, THEN conjunct2, THEN conjunct1, rule_format, OF rm_ok]
    by (simp add: lockpath)
  have "\<exists>world1. PrepareBuild ?stuck ''db'' ''out.json'' example_flags (example_config ''media'') ?free =
          (Ok [], world1)"
    by (simp add: build_eval)
  then obtain world1' where
    p': "PrepareBuild ?stuck ''db'' ''out.json'' example_flags (example_config ''media'') ?free = (Ok [], world1')"
    by blast
  have still: "remove_error ?stuck (buildLockFilepath ?stuck ''out.json'') = Some ''permission denied'' \<and>
     files (snd (BuildSome ?stuck ''*'' ''db'' ''out.json'' example_flags (example_config ''media'') ?free))
       (buildLockFilepath ?stuck ''out.json'') \<noteq> None"
    by (simp add: build_eval)
  have f: "last (log (snd (BuildSome ?stuck ''*'' ''db'' ''out.json'' example_flags (example_config ''media'') ?free))) =
     LogError ''could not release build lockfile ./.ortfomk-build-lock: permission denied''"
    using BuildSome_build_lock[where sys = ?stuck and world = ?free
      and outputFilename = "''out.json''" and includeWorks = "''*''" and databaseDirectory = "''db''"
      and flags = example_flags and config = "example_config ''media''",
      THEN conjunct2, rule_format, OF p', THEN conjunct2, THEN conjunct2, rule_format, OF still]
    by (simp add: lockpath)
  show ?thesis using ex a b c d e f p l by simp
qed

subsection \<open>A work that fails to build\<close>

lemma Build_error_no_work:
  "snd (fst (Build sys flags config databaseDirectory outputFilename workID world)) = Some err \<Longrightarrow>
     fst (fst (Build sys flags config databaseDirectory outputFilename workID world)) = no_work sys"
  by (auto simp: Build_def Let_def split: sum.splits prod.splits)

text \<open>An included work whose build fails is logged and still stored, as \<open>AnalyzedWork{}\<close>.\<close>

lemma works_loop_failed_work:
  assumes "include = ''*''"
    and "Build sys flags config databaseDirectory outputFilename workID world = ((newWork, Some err), world')"
  shows "works_loop sys include databaseDirectory outputFilename flags config previous (workID # rest)
           (works, world) =
         works_loop sys include databaseDirectory outputFilename flags config previous rest
           (works(workID \<mapsto> no_work sys),
            add_log (LogError (''while building '' @ workID @ '': '' @ err)) world')"
proof -
  have "newWork = no_work sys"
    using Build_error_no_work[of sys flags config databaseDirectory outputFilename workID world err] assms(2)
    by simp
  then show ?thesis using assms by simp
qed

text \<open>
  C1. The database \<open>db\<close> holds the works \<open>bad\<close>, whose description cannot be read,
  and \<open>good\<close>. The build of \<open>bad\<close> returns an error, the error is logged and the run
  goes on to \<open>good\<close> and ends well; but the database written has an entry under
  \<open>bad\<close>, the empty work, whose ID is empty.
\<close>

theorem BuildSome_stores_failed_work:
  "snd (fst (Build example_system example_flags (example_config ''media'') ''db'' ''out.json'' ''bad''
      (example_world [(''db/bad/description.md'', ''bad text''), (''db/good/description.md'', ''good text'')]))) =
     Some ''permission denied'' \<and>
   fst (BuildSome example_system ''*'' ''db'' ''out.json'' example_flags (example_config ''media'')
      (example_world [(''db/bad/description.md'', ''bad text''), (''db/good/description.md'', ''good text'')])) =
     Ok () \<and>
   log (snd (BuildSome example_system ''*'' ''db'' ''out.json'' example_flags (example_config ''media'')
      (example_world [(''db/bad/description.md'', ''bad text''), (''db/good/description.md'', ''good text'')]))) =
     [LogError ''while building bad: permission denied''] \<and>
   files (snd (BuildSome example_system ''*'' ''db'' ''out.json'' example_flags (example_config ''media'')
      (example_world [(''db/bad/description.md'', ''bad text''), (''db/good/description.md'', ''good text'')])))
      ''out.json'' = Some ''bad=;good=good;''"
  by (simp add: build_eval)

subsection \<open>Layouts that do not resolve\<close>

lemma find_dangling:
  "cell \<in> set cells \<Longrightarrow> is_dangling blockOrder cell \<Longrightarrow>
     \<exists>dangling. find (is_dangling blockOrder) cells = Some dangling \<and> dangling \<in> set cells \<and>
                is_dangling blockOrder dangling"
  by (induction cells) auto

lemma localize_fails:
  "lang \<in> set langs \<Longrightarrow> ResolveLayout sys description lang = Inl err \<Longrightarrow>
     \<exists>lang' err' world'. lang' \<in> set langs \<and> ResolveLayout sys description lang' = Inl err' \<and>
       localize sys workID description analyzedMediae langs (localizedContent, world) =
         (Inl (''while resolving '' @ lang' @ '' layout of '' @ workID @ '': '' @ err'), world')"
proof (induction langs arbitrary: localizedContent world)
  case Nil
  then show ?case by simp
next
  case (Cons l langs)
  show ?case
  proof (cases "ResolveLayout sys description l")
    case (Inl e)
    then show ?thesis by auto
  next
    case (Inr layout)
    with Cons.prems have "lang \<in> set langs" by auto
    obtain blocks world1 where cb: "collect_blocks sys description analyzedMediae
        (entry (ContentBlocksOrders description) l []) ([], world) = (blocks, world1)"
      by (cases "collect_blocks sys description analyzedMediae
        (entry (ContentBlocksOrders description) l []) ([], world)")
    from Cons.IH[OF \<open>lang \<in> set langs\<close> Cons.prems(2)] obtain lang' err' world' where
      "lang' \<in> set langs" "ResolveLayout sys description lang' = Inl err'"
      "localize sys workID description analyzedMediae langs
         (assign l \<lparr>Layout = layout, Blocks = blocks,
                    Localized_Title = entry (Titles description) l [],
                    Localized_Footnotes = entry (Footnotes description) l []\<rparr> localizedContent, world1) =
         (Inl (''while resolving '' @ lang' @ '' layout of '' @ workID @ '': '' @ err'), world')"
      by blast
    then show ?thesis using Inr cb by auto
  qed
qed

text \<open>
  C9. A declared layout with a cell that is not empty and is no block ID of the order of
  the language does not resolve: the error names the language and a dangling cell of the
  layout. In \<open>Build\<close>, when the layout of a language of the work does not resolve, the
  build of the work returns no work and the error of a language whose layout does not
  resolve, under the name of the language and of the work: nothing is dropped in silence.
\<close>

theorem ResolveLayout_dangling_reference:
  "(cell \<in> set (concat rows) \<and> cell \<noteq> EmptyLayoutCell \<and> cell \<notin> set blockOrder \<longrightarrow>
      (\<exists>dangling.
         ResolveLayout_spec (Some rows) blockOrder language = Inl (DanglingReference language dangling) \<and>
         dangling \<in> set (concat rows) \<and> dangling \<noteq> EmptyLayoutCell \<and> dangling \<notin> set blockOrder)) \<and>
   (os_ReadFile sys world (description_path sys flags config databaseDirectory workID) = Inr raw \<and>
    lang \<in> fst ` set (Paragraphs (ParseDescription sys raw)) \<and>
    ResolveLayout sys (ParseDescription sys raw) lang = Inl err \<longrightarrow>
      (\<exists>lang' err'.
         lang' \<in> fst ` set (Paragraphs (ParseDescription sys raw)) \<and>
         ResolveLayout sys (ParseDescription sys raw) lang' = Inl err' \<and>
         fst (Build sys flags config databaseDirectory outputFilename workID world) =
           (no_work sys, Some (''while resolving '' @ lang' @ '' layout of '' @ workID @ '': '' @ err'))))"
proof (intro conjI impI)
  assume "cell \<in> set (concat rows) \<and> cell \<noteq> EmptyLayoutCell \<and> cell \<notin> set blockOrder"
  then have "cell \<in> set (concat rows)" and "is_dangling blockOrder cell"
    by (simp_all add: is_dangling_def)
  from find_dangling[OF this] obtain dangling where
    "find (is_dangling blockOrder) (concat rows) = Some dangling" "dangling \<in> set (concat rows)"
    "is_dangling blockOrder dangling" by blast
  then show "\<exists>dangling.
         ResolveLayout_spec (Some rows) blockOrder language = Inl (DanglingReference language dangling) \<and>
         dangling \<in> set (concat rows) \<and> dangling \<noteq> EmptyLayoutCell \<and> dangling \<notin> set blockOrder"
    by (auto simp: ResolveLayout_spec_def is_dangling_def)
next
  let ?d = "ParseDescription sys raw"
  assume a: "os_ReadFile sys world (description_path sys flags config databaseDirectory workID) = Inr raw \<and>
    lang \<in> fst ` set (Paragraphs ?d) \<and> ResolveLayout sys ?d lang = Inl err"
  obtain analyzedMediae world1 where
    hl: "handle_languages sys workID (MediaEmbedDeclarations ?d) ([], world) = (analyzedMediae, world1)"
    by (cases "handle_languages sys workID (MediaEmbedDeclarations ?d) ([], world)")
  from a have "lang \<in> set (map fst (Paragraphs ?d))" by simp
  from localize_fails[OF this, of sys ?d err workID analyzedMediae "[]" world1] a
  obtain lang' err' world' where
    l: "lang' \<in> set (map fst (Paragraphs ?d))" and r: "ResolveLayout sys ?d lang' = Inl err'" and
    loc: "localize sys workID ?d analyzedMediae (map fst (Paragraphs ?d)) ([], world1) =
            (Inl (''while resolving '' @ lang' @ '' layout of '' @ workID @ '': '' @ err'), world')"
    by blast
  have "fst (Build sys flags config databaseDirectory outputFilename workID world) =
           (no_work sys, Some (''while resolving '' @ lang' @ '' layout of '' @ workID @ '': '' @ err'))"
    using a hl loc by (simp add: Build_def Let_def)
  with l r show "\<exists>lang' err'.
         lang' \<in> fst ` set (Paragraphs ?d) \<and> ResolveLayout sys ?d lang' = Inl err' \<and>
         fst (Build sys flags config databaseDirectory outputFilename workID world) =
           (no_work sys, Some (''while resolving '' @ lang' @ '' layout of '' @ workID @ '': '' @ err'))"
    by auto
qed

theorem ResolveLayout_dangling_reference_witness:
  "ResolveLayout_spec (Some [[''p1'', ''ghost'']]) [''p1''] ''en'' = Inl (DanglingReference ''en'' ''ghost'') \<and>
   os_ReadFile example_system (example_world [(''db/good/description.md'', ''layout: ghost'')])
     (description_path example_system example_flags (example_config ''media'') ''db'' ''good'') =
       Inr ''layout: ghost'' \<and>
   ResolveLayout example_system (ParseDescription example_system ''layout: ghost'') ''default'' =
     Inl ''layout of language default references unknown block ghost'' \<and>
   fst (Build example_system example_flags (example_config ''media'') ''db'' ''out.json'' ''good''
          (example_world [(''db/good/description.md'', ''layout: ghost'')])) =
     (no_work example_system,
      Some ''while resolving default layout of good: layout of language default references unknown block ghost'')"
proof -
  let ?w = "example_world [(''db/good/description.md'', ''layout: ghost'')]"
  note t = ResolveLayout_dangling_reference[where cell = "''ghost''" and rows = "[[''p1'', ''ghost'']]"
      and blockOrder = "[''p1'']" and language = "''en''" and sys = example_system and world = ?w
      and flags = example_flags and config = "example_config ''media''" and databaseDirectory = "''db''"
      and workID = "''good''" and raw = "''layout: ghost''" and lang = "''default''"
      and err = "''layout of language default references unknown block ghost''"
      and outputFilename = "''out.json''"]
  have h1: "''ghost'' \<in> set (concat [[''p1'', ''ghost'']]) \<and> ''ghost'' \<noteq> EmptyLayoutCell \<and> ''ghost'' \<notin> set [''p1'']"
    by (simp add: EmptyLayoutCell_def)
  from t[THEN conjunct1, rule_format, OF h1] have a:
    "ResolveLayout_spec (Some [[''p1'', ''ghost'']]) [''p1''] ''en'' = Inl (DanglingReference ''en'' ''ghost'')"
    by (auto simp: EmptyLayoutCell_def)
  have rd: "os_ReadFile example_system ?w
     (description_path example_system example_flags (example_config ''media'') ''db'' ''good'') =
       Inr ''layout: ghost''"
    by (simp add: build_eval)
  have rl: "ResolveLayout example_system (ParseDescription example_system ''layout: ghost'') ''default'' =
     Inl ''layout of language default references unknown block ghost''"
    by (simp add: build_eval)
  have lg: "''default'' \<in> fst ` set (Paragraphs (ParseDescription example_system ''layout: ghost''))"
    by (simp add: build_eval)
  from t[THEN conjunct2, rule_format, OF conjI[OF rd conjI[OF lg rl]]] obtain lang' err' where
    l': "lang' \<in> fst ` set (Paragraphs (ParseDescription example_system ''layout: ghost''))" and
    r': "ResolveLayout example_system (ParseDescription example_system ''layout: ghost'') lang' = Inl err'" and
    b: "fst (Build example_system example_flags (example_config ''media'') ''db'' ''out.json'' ''good'' ?w) =
           (no_work example_system, Some (''while resolving '' @ lang' @ '' layout of '' @ ''good'' @ '': '' @ err'))"
    by blast
  from l' have "lang' = ''default''" by (simp add: build_eval)
  with r' rl have "err' = ''layout of language default references unknown block ghost''" by simp
  with b \<open>lang' = ''default''\<close> a rd rl show ?thesis by simp
qed


end
